theory Spec2Isabelle
  imports Complex_Main
begin

section \<open>Errors and thrown values\<close>

text \<open>
  \<^verbatim>\<open>ApiError\<close> (libs/core.ts) carries a code, a status and a message. The timestamp
  (\<^verbatim>\<open>Date.now()\<close>) and the references to the originating request and response are
  not observed by any function modelled here and are left out.
\<close>

record ApiError =
  code :: string
  status :: nat
  message :: string

text \<open>
  A thrown JavaScript value, as far as the code distinguishes it:
  \<^item> \<open>ApiErr e\<close>: \<^verbatim>\<open>error instanceof ApiError\<close> (which is also an \<^verbatim>\<open>Error\<close>, named "ApiError");
  \<^item> \<open>Err name msg\<close>: any other \<^verbatim>\<open>error instanceof Error\<close>, with its \<^verbatim>\<open>name\<close> and \<^verbatim>\<open>message\<close>;
  \<^item> \<open>NonError truthy str\<close>: any other thrown value, with the two observations the
    code makes of it: its truthiness and \<^verbatim>\<open>String(error)\<close>.
\<close>

datatype thrown =
    ApiErr ApiError
  | Err string string
  | NonError bool string

fun instanceofError :: "thrown \<Rightarrow> bool" where
  "instanceofError (ApiErr e) = True"
| "instanceofError (Err n m) = True"
| "instanceofError (NonError t s) = False"

fun error_name :: "thrown \<Rightarrow> string" where
  "error_name (ApiErr e) = ''ApiError''"
| "error_name (Err n m) = n"
| "error_name (NonError t s) = []"

fun error_message :: "thrown \<Rightarrow> string" where
  "error_message (ApiErr e) = message e"
| "error_message (Err n m) = m"
| "error_message (NonError t s) = []"

section \<open>Interceptor (the middleware chain)\<close>

text \<open>
  \<^verbatim>\<open>handlers\<close> is a JavaScript \<^verbatim>\<open>Map\<close>: it iterates in insertion order, \<^verbatim>\<open>set\<close> on a
  present key replaces the value in place and on a new key appends, \<^verbatim>\<open>delete\<close> removes
  the key. It is modelled as an association list in insertion order.
  A handler is a function that returns the next item or throws (an asynchronous handler
  is awaited by \<^verbatim>\<open>execute\<close>, so its rejection is a throw).
\<close>

type_synonym 'a InterceptorHandler = "'a \<Rightarrow> thrown + 'a"

record 'a Interceptor =
  handlers :: "(nat \<times> 'a InterceptorHandler) list"
  nextId :: nat

definition new_Interceptor :: "'a Interceptor" where
  "new_Interceptor = \<lparr>handlers = [], nextId = 0\<rparr>"

fun Map_set :: "nat \<Rightarrow> 'v \<Rightarrow> (nat \<times> 'v) list \<Rightarrow> (nat \<times> 'v) list" where
  "Map_set k v [] = [(k, v)]"
| "Map_set k v ((k', v') # m) = (if k' = k then (k, v) # m else (k', v') # Map_set k v m)"

definition Map_delete :: "nat \<Rightarrow> (nat \<times> 'v) list \<Rightarrow> (nat \<times> 'v) list" where
  "Map_delete k m = filter (\<lambda>(k', v). k' \<noteq> k) m"

text \<open>The argument of \<^verbatim>\<open>use\<close>: a function, or any other value (\<^verbatim>\<open>typeof handler !== 'function'\<close>).\<close>

datatype 'a handler_arg = Function "'a InterceptorHandler" | NotFunction

text \<open>\<^verbatim>\<open>use\<close> returns the handle or throws, together with the interceptor's state afterwards.\<close>

fun use :: "'a handler_arg \<Rightarrow> 'a Interceptor \<Rightarrow> (thrown + nat) \<times> 'a Interceptor" where
  "use NotFunction ic = (Inl (Err ''TypeError'' ''Handler must be a function''), ic)"
| "use (Function h) ic =
     (Inr (nextId ic),
      ic\<lparr>handlers := Map_set (nextId ic) h (handlers ic), nextId := nextId ic + 1\<rparr>)"

text \<open>One iteration of the loop of \<^verbatim>\<open>execute\<close>: the handler is called inside try/catch.\<close>

definition handler_step :: "'a InterceptorHandler \<Rightarrow> 'a \<Rightarrow> thrown + 'a" where
  "handler_step h r =
     (case h r of
        Inr r' \<Rightarrow> Inr r'
      | Inl e \<Rightarrow>
          Inl (Err ''Error'' (''Interceptor handler failed: '' @
                 (if instanceofError e then error_message e else ''Unknown error''))))"

fun run_handlers :: "(nat \<times> 'a InterceptorHandler) list \<Rightarrow> 'a \<Rightarrow> thrown + 'a" where
  "run_handlers [] r = Inr r"
| "run_handlers ((k, h) # hs) r =
     (case handler_step h r of Inl e \<Rightarrow> Inl e | Inr r' \<Rightarrow> run_handlers hs r')"

definition execute :: "'a Interceptor \<Rightarrow> 'a \<Rightarrow> thrown + 'a" where
  "execute ic item = run_handlers (handlers ic) item"

definition clear :: "'a Interceptor \<Rightarrow> 'a Interceptor" where
  "clear ic = ic\<lparr>handlers := []\<rparr>"

definition reject :: "nat \<Rightarrow> 'a Interceptor \<Rightarrow> 'a Interceptor" where
  "reject k ic = ic\<lparr>handlers := Map_delete k (handlers ic)\<rparr>"

definition size_of :: "'a Interceptor \<Rightarrow> nat" where
  "size_of ic = length (handlers ic)"

definition isEmpty :: "'a Interceptor \<Rightarrow> bool" where
  "isEmpty ic = (length (handlers ic) = 0)"

text \<open>
  A sequence of calls on one interceptor, and the handles that the successful \<^verbatim>\<open>use\<close>
  calls among them return, in order.
\<close>

datatype 'a interceptor_call =
    CallUse "'a handler_arg"
  | CallReject nat
  | CallClear
  | CallExecute 'a

fun run_calls :: "'a interceptor_call list \<Rightarrow> 'a Interceptor \<Rightarrow> nat list \<times> 'a Interceptor" where
  "run_calls [] ic = ([], ic)"
| "run_calls (CallUse h # cs) ic =
     (case use h ic of
        (Inl e, ic') \<Rightarrow> run_calls cs ic'
      | (Inr k, ic') \<Rightarrow> (case run_calls cs ic' of (ks, ic'') \<Rightarrow> (k # ks, ic'')))"
| "run_calls (CallReject k # cs) ic = run_calls cs (reject k ic)"
| "run_calls (CallClear # cs) ic = run_calls cs (clear ic)"
| "run_calls (CallExecute x # cs) ic = run_calls cs ic"

text \<open>Every key of the handler map is below the counter: the state any call sequence reaches.\<close>

definition keys_below :: "'a Interceptor \<Rightarrow> bool" where
  "keys_below ic = list_all (\<lambda>(k, h). k < nextId ic) (handlers ic)"

text \<open>Registering a list of handlers one after the other.\<close>

definition use_all :: "'a InterceptorHandler list \<Rightarrow> 'a Interceptor \<Rightarrow> 'a Interceptor" where
  "use_all fs ic = foldl (\<lambda>i f. snd (use (Function f) i)) ic fs"

section \<open>Strings and headers\<close>

text \<open>
  Strings are lists of 8-bit characters. \<^verbatim>\<open>String.prototype.includes\<close> and
  \<^verbatim>\<open>startsWith\<close> are written out; both are case-sensitive.
\<close>

fun startsWith :: "string \<Rightarrow> string \<Rightarrow> bool" where
  "startsWith s [] = True"
| "startsWith [] (p # ps) = False"
| "startsWith (c # s) (p # ps) = (c = p \<and> startsWith s ps)"

fun String_includes :: "string \<Rightarrow> string \<Rightarrow> bool" where
  "String_includes [] sub = (sub = [])"
| "String_includes (c # s) sub = (startsWith (c # s) sub \<or> String_includes s sub)"

text \<open>
  \<^verbatim>\<open>String.prototype.trim\<close>: the white space and line terminators of JavaScript that
  fit in 8 bits (tab, LF, VT, FF, CR, space, no-break space).
\<close>

definition isWhiteSpace :: "char \<Rightarrow> bool" where
  "isWhiteSpace c = (of_char c \<in> {9, 10, 11, 12, 13, 32, 160 :: nat})"

definition trim :: "string \<Rightarrow> string" where
  "trim s = rev (dropWhile isWhiteSpace (rev (dropWhile isWhiteSpace s)))"

text \<open>
  A \<^verbatim>\<open>Headers\<close> object of the platform: a list of (name, value) pairs whose names are
  lower-cased (names are matched case-insensitively). \<^verbatim>\<open>get\<close> joins the values of a
  name with ", "; \<^verbatim>\<open>set\<close> replaces the first entry of the name and removes the others,
  or appends; \<^verbatim>\<open>append\<close> adds an entry. Header names and values are taken to be valid
  (the platform's TypeError for an invalid name is not modelled).
\<close>

type_synonym Headers = "(string \<times> string) list"

definition toLowerCase_char :: "char \<Rightarrow> char" where
  "toLowerCase_char c =
     (case map_of (zip ''ABCDEFGHIJKLMNOPQRSTUVWXYZ'' ''abcdefghijklmnopqrstuvwxyz'') c of
        Some l \<Rightarrow> l | None \<Rightarrow> c)"

definition toLowerCase :: "string \<Rightarrow> string" where
  "toLowerCase s = map toLowerCase_char s"

fun join_values :: "string list \<Rightarrow> string" where
  "join_values [] = []"
| "join_values [v] = v"
| "join_values (v # w # vs) = v @ '', '' @ join_values (w # vs)"

definition Headers_get :: "string \<Rightarrow> Headers \<Rightarrow> string option" where
  "Headers_get n hs =
     (case map snd (filter (\<lambda>p. fst p = toLowerCase n) hs) of
        [] \<Rightarrow> None
      | v # vs \<Rightarrow> Some (join_values (v # vs)))"

fun set_entry :: "string \<Rightarrow> string \<Rightarrow> Headers \<Rightarrow> Headers" where
  "set_entry k v [] = [(k, v)]"
| "set_entry k v ((k', v') # hs) =
     (if k' = k then (k, v) # filter (\<lambda>p. fst p \<noteq> k) hs else (k', v') # set_entry k v hs)"

definition Headers_set :: "string \<Rightarrow> string \<Rightarrow> Headers \<Rightarrow> Headers" where
  "Headers_set n v hs = set_entry (toLowerCase n) v hs"

definition Headers_append :: "string \<Rightarrow> string \<Rightarrow> Headers \<Rightarrow> Headers" where
  "Headers_append n v hs = hs @ [(toLowerCase n, v)]"

text \<open>\<^verbatim>\<open>new Headers(record)\<close>: every entry of the record is appended, in order.\<close>

definition new_Headers :: "(string \<times> string) list \<Rightarrow> Headers" where
  "new_Headers record = foldl (\<lambda>hs (n, v). Headers_append n v hs) [] record"

section \<open>Constants (libs/constants.ts)\<close>

datatype HttpMethod = GET | POST | PUT | DELETE | PATCH | HEAD | OPTIONS

datatype ResponseType = RTjson | RTtext | RTblob | RTarrayBuffer | RTauto

definition DEFAULT_RETRY_STATUSES :: "nat list" where
  "DEFAULT_RETRY_STATUSES = [408, 429, 500, 502, 503, 504]"

definition READ_ONLY_METHODS :: "HttpMethod list" where
  "READ_ONLY_METHODS = [GET, HEAD]"

definition RETRY_DEFAULTS_MAX_RETRIES :: int where "RETRY_DEFAULTS_MAX_RETRIES = 3"
definition RETRY_DEFAULTS_DELAY :: real where "RETRY_DEFAULTS_DELAY = 1000"
definition RETRY_DEFAULTS_MAX_DELAY :: real where "RETRY_DEFAULTS_MAX_DELAY = 30000"
definition RETRY_DEFAULTS_JITTER_FACTOR :: real where "RETRY_DEFAULTS_JITTER_FACTOR = 1 / 10"

definition JSON_CONTENT_TYPE :: string where "JSON_CONTENT_TYPE = ''application/json''"

definition HTTP_STATUS_NO_CONTENT :: nat where "HTTP_STATUS_NO_CONTENT = 204"
definition HTTP_STATUS_NOT_MODIFIED :: nat where "HTTP_STATUS_NOT_MODIFIED = 304"
definition HTTP_STATUS_REQUEST_TIMEOUT :: nat where "HTTP_STATUS_REQUEST_TIMEOUT = 408"

definition CONTENT_TYPES_JSON :: string where "CONTENT_TYPES_JSON = ''json''"
definition CONTENT_TYPES_TEXT :: "string list" where "CONTENT_TYPES_TEXT = [''text/'', ''xml'']"

text \<open>\<^verbatim>\<open>CONTENT_TYPES.BINARY.test\<close> for the pattern \<^verbatim>\<open>/^(image|video|audio|application\/octet-stream)/\<close>.\<close>

definition CONTENT_TYPES_BINARY_test :: "string \<Rightarrow> bool" where
  "CONTENT_TYPES_BINARY_test s =
     list_ex (startsWith s) [''image'', ''video'', ''audio'', ''application/octet-stream'']"

definition DEFAULT_RESPONSE_TYPE :: ResponseType where "DEFAULT_RESPONSE_TYPE = RTauto"

section \<open>JavaScript numbers\<close>

text \<open>
  A JavaScript number is a double (binary64): a finite value (the real number it denotes),
  an infinity or NaN; the sign of a zero is not kept. The arithmetic of the platform
  computes the exact result and rounds it to a double with the rounding \<open>fl\<close> (a parameter
  of the model, see \<open>rounding\<close> below); an exact result at or beyond the overflow threshold
  \<open>2^1024 - 2^970\<close> becomes an infinity. Infinity times zero and the sum of opposite
  infinities are NaN, and \<^verbatim>\<open>Math.min\<close> returns NaN when an argument is NaN.
  \<^verbatim>\<open>Math.pow(2, n)\<close> is taken at a natural number \<open>n\<close>.
\<close>

datatype number = Fin real | PosInfinity | NegInfinity | NaN

definition overflow_threshold :: real where
  "overflow_threshold = 2 ^ 1024 - 2 ^ 970"

definition to_number :: "(real \<Rightarrow> real) \<Rightarrow> real \<Rightarrow> number" where
  "to_number fl x =
     (if overflow_threshold \<le> x then PosInfinity
      else if x \<le> - overflow_threshold then NegInfinity
      else Fin (fl x))"

fun number_times :: "(real \<Rightarrow> real) \<Rightarrow> number \<Rightarrow> number \<Rightarrow> number" where
  "number_times fl NaN b = NaN"
| "number_times fl a NaN = NaN"
| "number_times fl (Fin x) (Fin y) = to_number fl (x * y)"
| "number_times fl (Fin x) PosInfinity =
     (if x = 0 then NaN else if 0 < x then PosInfinity else NegInfinity)"
| "number_times fl (Fin x) NegInfinity =
     (if x = 0 then NaN else if 0 < x then NegInfinity else PosInfinity)"
| "number_times fl PosInfinity (Fin y) =
     (if y = 0 then NaN else if 0 < y then PosInfinity else NegInfinity)"
| "number_times fl NegInfinity (Fin y) =
     (if y = 0 then NaN else if 0 < y then NegInfinity else PosInfinity)"
| "number_times fl PosInfinity PosInfinity = PosInfinity"
| "number_times fl PosInfinity NegInfinity = NegInfinity"
| "number_times fl NegInfinity PosInfinity = NegInfinity"
| "number_times fl NegInfinity NegInfinity = PosInfinity"

fun number_plus :: "(real \<Rightarrow> real) \<Rightarrow> number \<Rightarrow> number \<Rightarrow> number" where
  "number_plus fl NaN b = NaN"
| "number_plus fl a NaN = NaN"
| "number_plus fl (Fin x) (Fin y) = to_number fl (x + y)"
| "number_plus fl PosInfinity NegInfinity = NaN"
| "number_plus fl NegInfinity PosInfinity = NaN"
| "number_plus fl PosInfinity b = PosInfinity"
| "number_plus fl NegInfinity b = NegInfinity"
| "number_plus fl a PosInfinity = PosInfinity"
| "number_plus fl a NegInfinity = NegInfinity"

fun Math_min :: "number \<Rightarrow> number \<Rightarrow> number" where
  "Math_min NaN b = NaN"
| "Math_min a NaN = NaN"
| "Math_min NegInfinity b = NegInfinity"
| "Math_min a NegInfinity = NegInfinity"
| "Math_min PosInfinity b = b"
| "Math_min a PosInfinity = a"
| "Math_min (Fin x) (Fin y) = Fin (min x y)"

definition Math_pow_2 :: "(real \<Rightarrow> real) \<Rightarrow> nat \<Rightarrow> number" where
  "Math_pow_2 fl n = to_number fl (2 ^ n)"

section \<open>ApiError factories\<close>

definition fromTimeout :: ApiError where
  "fromTimeout =
     \<lparr>code = ''TIMEOUT'', status = HTTP_STATUS_REQUEST_TIMEOUT, message = ''Request timed out''\<rparr>"

definition fromNetworkError :: "thrown \<Rightarrow> ApiError" where
  "fromNetworkError error =
     \<lparr>code = ''NETWORK_ERROR'', status = 0, message = ''Network error: '' @ error_message error\<rparr>"

text \<open>
  \<^verbatim>\<open>fromParseError\<close> reads \<^verbatim>\<open>error.message\<close> of whatever was caught; for a thrown value
  that is not an Error the template prints "undefined".
\<close>

definition toUpperCase :: "string \<Rightarrow> string" where
  "toUpperCase s =
     map (\<lambda>c. case map_of (zip ''abcdefghijklmnopqrstuvwxyz'' ''ABCDEFGHIJKLMNOPQRSTUVWXYZ'') c of
                 Some u \<Rightarrow> u | None \<Rightarrow> c) s"

definition fromParseError :: "string \<Rightarrow> nat \<Rightarrow> thrown \<Rightarrow> ApiError" where
  "fromParseError dataType st error =
     \<lparr>code = toUpperCase dataType @ ''_PARSE_ERROR'', status = st,
      message = ''Failed to parse '' @ dataType @ '': '' @
                (if instanceofError error then error_message error else ''undefined'')\<rparr>"

section \<open>Requests (ApiRequest, libs/core.ts)\<close>

text \<open>
  The request body \<^verbatim>\<open>Body\<close> by what \<^verbatim>\<open>isNativeBodyType\<close> and \<^verbatim>\<open>typeof\<close> tell apart:
  the nine native kinds (with their content), any other object (\<^verbatim>\<open>typeof data === "object"\<close>:
  plain records, arrays, typed arrays other than Uint8Array), and any other primitive, of
  which the code only takes \<^verbatim>\<open>String(data)\<close>. \<^verbatim>\<open>null\<close> and \<^verbatim>\<open>undefined\<close> are \<open>None\<close>.
\<close>

datatype 'o Body =
    BString string
  | BArrayBuffer string
  | BUint8Array string
  | BDataView string
  | BBlob string
  | BFile string
  | BFormData string
  | BURLSearchParams string
  | BReadableStream string
  | BObject 'o
  | BPrimitive string

fun isNativeBodyType :: "'o Body \<Rightarrow> bool" where
  "isNativeBodyType (BObject obj) = False"
| "isNativeBodyType (BPrimitive s) = False"
| "isNativeBodyType b = True"

text \<open>
  The transport's response (\<^verbatim>\<open>globalThis.Response\<close>). \<^verbatim>\<open>ok\<close> is the platform's getter:
  the status is in 200..299. A body-read operation returns or throws, and what it does may
  depend on how many reads of the body came before it (the argument).
\<close>

record Response =
  res_status :: nat
  res_statusText :: string
  res_headers :: Headers
  res_text :: "nat \<Rightarrow> thrown + string"
  res_blob :: "nat \<Rightarrow> thrown + string"
  res_arrayBuffer :: "nat \<Rightarrow> thrown + string"

definition ok :: "Response \<Rightarrow> bool" where
  "ok r = (200 \<le> res_status r \<and> res_status r \<le> 299)"

text \<open>
  The retry policy. \<^verbatim>\<open>shouldRetry\<close> is an array of status codes or a function of the
  error or response. \<^verbatim>\<open>RetryConfig\<close> is what the caller passes; \<^verbatim>\<open>Required<RetryConfig>\<close>
  is what \<^verbatim>\<open>getRetrySettings\<close> returns. Numbers of attempts are integers (a negative
  \<^verbatim>\<open>maxRetries\<close> is possible); delays are real numbers.
\<close>

datatype ShouldRetry =
    StatusArray "nat list"
  | RetryFunction "thrown + Response \<Rightarrow> bool"

record RetryConfig =
  cfg_maxRetries :: int
  cfg_delay :: "real option"
  cfg_shouldRetry :: "ShouldRetry option"

record RetrySettings =
  maxRetries :: int
  delay :: real
  shouldRetry :: ShouldRetry

datatype Retry = RetryNumber int | RetryObject RetryConfig

record 'o RequestConfig =
  c_baseURL :: "string option"
  c_timeout :: "real option"
  c_method :: HttpMethod
  c_params :: "(string \<times> string) list option"
  c_url :: string
  c_responseType :: "ResponseType option"
  c_data :: "'o Body option"
  c_retry :: "Retry option"
  c_headers :: "(string \<times> string) list"

record 'o ApiRequest =
  config :: "'o RequestConfig"
  headers :: Headers
  params :: "(string \<times> string) list"
  data :: "'o Body option"
  req_method :: HttpMethod
  retry :: "Retry option"
  url :: string
  timeout :: "real option"

text \<open>
  \<^verbatim>\<open>createParams\<close>: the values of \<^verbatim>\<open>config.params\<close> are taken after \<^verbatim>\<open>String(value)\<close>.
\<close>

definition createParams :: "(string \<times> string) list option \<Rightarrow> (string \<times> string) list" where
  "createParams ps = (case ps of None \<Rightarrow> [] | Some kvs \<Rightarrow> foldl (\<lambda>sp kv. sp @ [kv]) [] kvs)"

definition new_ApiRequest :: "'o RequestConfig \<Rightarrow> 'o ApiRequest" where
  "new_ApiRequest c =
     \<lparr>config = c, headers = new_Headers (c_headers c), params = createParams (c_params c),
      data = c_data c, req_method = c_method c, retry = c_retry c, url = c_url c,
      timeout = c_timeout c\<rparr>"

text \<open>What \<^verbatim>\<open>send\<close> passes to \<^verbatim>\<open>fetch\<close>; \<open>fc_timeout\<close> is the delay after which the signal aborts.\<close>

record 'o FetchCall =
  fc_url :: string
  fc_method :: HttpMethod
  fc_headers :: Headers
  fc_body :: "'o Body option"
  fc_timeout :: "real option"

text \<open>
  The platform: \<^verbatim>\<open>fetch\<close> (its result at the k-th invocation, for the arguments given),
  \<^verbatim>\<open>Math.random\<close> (its value at the wait after attempt i), \<^verbatim>\<open>JSON.stringify\<close> and
  \<^verbatim>\<open>JSON.parse\<close>, the \<^verbatim>\<open>URL\<close> class, and the rounding of its double arithmetic.
\<close>

record ('u, 'o) Platform =
  fetch :: "nat \<Rightarrow> 'o FetchCall \<Rightarrow> thrown + Response"
  Math_random :: "nat \<Rightarrow> real"
  round_double :: "real \<Rightarrow> real"
  JSON_stringify :: "'o \<Rightarrow> thrown + string"
  JSON_parse :: "string \<Rightarrow> thrown + 'o"
  URL_new :: "string \<Rightarrow> string option \<Rightarrow> thrown + 'u"
  URL_searchParams_append :: "'u \<Rightarrow> string \<times> string \<Rightarrow> 'u"
  URL_toString :: "'u \<Rightarrow> string"

definition buildUrl :: "('u, 'o) Platform \<Rightarrow> 'o ApiRequest \<Rightarrow> thrown + string" where
  "buildUrl P req =
     (case URL_new P (c_url (config req)) (c_baseURL (config req)) of
        Inl e \<Rightarrow> Inl e
      | Inr u \<Rightarrow> Inr (URL_toString P (foldl (URL_searchParams_append P) u (params req))))"

text \<open>
  \<^verbatim>\<open>createBody\<close> returns the body or throws (when \<^verbatim>\<open>JSON.stringify\<close> does), and the
  request afterwards: it sets a header of the request object.
\<close>

definition createBody ::
  "('u, 'o) Platform \<Rightarrow> 'o ApiRequest \<Rightarrow> (thrown + 'o Body option) \<times> 'o ApiRequest" where
  "createBody P req =
     (if req_method req \<in> set READ_ONLY_METHODS \<or> data req = None then (Inr None, req)
      else
        (case data req of
           None \<Rightarrow> (Inr None, req)
         | Some d \<Rightarrow>
             if isNativeBodyType d then (Inr (Some d), req)
             else
               (case d of
                  BObject obj \<Rightarrow>
                    (let req' = req\<lparr>headers := Headers_set ''Content-Type'' JSON_CONTENT_TYPE (headers req)\<rparr>
                     in (case JSON_stringify P obj of
                           Inl e \<Rightarrow> (Inl e, req')
                         | Inr s \<Rightarrow> (Inr (Some (BString s)), req')))
                | BPrimitive s \<Rightarrow> (Inr (Some (BString s)), req)
                | _ \<Rightarrow> (Inr (Some d), req))))"

definition getRetrySettings :: "'o ApiRequest \<Rightarrow> RetrySettings" where
  "getRetrySettings req =
     (case retry req of
        Some (RetryNumber n) \<Rightarrow>
          \<lparr>maxRetries = n, delay = RETRY_DEFAULTS_DELAY, shouldRetry = StatusArray DEFAULT_RETRY_STATUSES\<rparr>
      | Some (RetryObject r) \<Rightarrow>
          \<lparr>maxRetries = cfg_maxRetries r,
           delay = (case cfg_delay r of Some d \<Rightarrow> d | None \<Rightarrow> RETRY_DEFAULTS_DELAY),
           shouldRetry = (case cfg_shouldRetry r of Some p \<Rightarrow> p
                          | None \<Rightarrow> StatusArray DEFAULT_RETRY_STATUSES)\<rparr>
      | None \<Rightarrow>
          \<lparr>maxRetries = RETRY_DEFAULTS_MAX_RETRIES, delay = RETRY_DEFAULTS_DELAY,
           shouldRetry = StatusArray DEFAULT_RETRY_STATUSES\<rparr>)"

definition shouldRetryResponse :: "Response \<Rightarrow> RetrySettings \<Rightarrow> bool" where
  "shouldRetryResponse response rs =
     (case shouldRetry rs of
        StatusArray sts \<Rightarrow> res_status response \<in> set sts
      | RetryFunction f \<Rightarrow> f (Inr response))"

definition shouldRetryError :: "thrown \<Rightarrow> RetrySettings \<Rightarrow> bool" where
  "shouldRetryError error rs =
     (case shouldRetry rs of
        StatusArray sts \<Rightarrow> error_name error \<noteq> ''AbortError''
      | RetryFunction f \<Rightarrow> f (Inl error))"

text \<open>
  \<^verbatim>\<open>wait\<close>: the delay it hands to \<^verbatim>\<open>setTimeout\<close>, for the base delay \<open>d\<close>, the attempt
  number and the value \<open>r\<close> that \<^verbatim>\<open>Math.random()\<close> returns, computed in double arithmetic
  with the rounding \<open>fl\<close>. The literal \<^verbatim>\<open>0.1\<close> of the jitter factor denotes the double
  nearest to one tenth; 30000 is a double.
\<close>

definition wait :: "(real \<Rightarrow> real) \<Rightarrow> real \<Rightarrow> nat \<Rightarrow> real \<Rightarrow> number" where
  "wait fl d attempt r =
     (let exponentialDelay = number_times fl (Fin d) (Math_pow_2 fl attempt);
          jitter = number_times fl
                     (number_times fl exponentialDelay (Fin (fl RETRY_DEFAULTS_JITTER_FACTOR)))
                     (Fin r)
      in Math_min (number_plus fl exponentialDelay jitter) (Fin RETRY_DEFAULTS_MAX_DELAY))"

text \<open>
  The \<^verbatim>\<open>try\<close> block of one attempt: the arguments of \<^verbatim>\<open>fetch\<close> are evaluated in order
  (\<^verbatim>\<open>buildUrl\<close>, then \<^verbatim>\<open>createBody\<close>), then \<^verbatim>\<open>fetch\<close> is called. The timer is armed when
  \<^verbatim>\<open>this.timeout\<close> is truthy.
\<close>

definition fetch_arguments ::
  "('u, 'o) Platform \<Rightarrow> 'o ApiRequest \<Rightarrow> (thrown + 'o FetchCall) \<times> 'o ApiRequest" where
  "fetch_arguments P req =
     (case buildUrl P req of
        Inl e \<Rightarrow> (Inl e, req)
      | Inr u \<Rightarrow>
          (case createBody P req of
             (Inl e, req') \<Rightarrow> (Inl e, req')
           | (Inr b, req') \<Rightarrow>
               (Inr \<lparr>fc_url = u, fc_method = req_method req', fc_headers = headers req', fc_body = b,
                     fc_timeout = (case timeout req' of
                                     Some t \<Rightarrow> if t \<noteq> 0 then Some t else None
                                   | None \<Rightarrow> None)\<rparr>,
                req')))"

record 'o SendResult =
  sr_outcome :: "thrown + Response"
  sr_calls :: "'o FetchCall list"
  sr_waits :: "number list"
  sr_request :: "'o ApiRequest"

definition retry_delay :: "RetrySettings \<Rightarrow> real" where
  "retry_delay rs = (if delay rs = 0 then 1000 else delay rs)"

text \<open>
  The loop of \<^verbatim>\<open>send\<close>, from the attempt number \<open>attempt\<close> on. It carries
  \<^verbatim>\<open>lastError\<close>, the transport calls made and the waits made so far. The \<^verbatim>\<open>catch\<close>
  block is written out at both places where the \<^verbatim>\<open>try\<close> block can throw: the
  evaluation of the arguments and the call of \<^verbatim>\<open>fetch\<close>.
\<close>

function send_loop ::
  "('u, 'o) Platform \<Rightarrow> RetrySettings \<Rightarrow> 'o ApiRequest \<Rightarrow> nat \<Rightarrow> thrown option \<Rightarrow>
   'o FetchCall list \<Rightarrow> number list \<Rightarrow> 'o SendResult" where
  "send_loop P rs req attempt lastError calls waits =
     (if int attempt \<le> maxRetries rs then
        (case fetch_arguments P req of
           (Inl error, req') \<Rightarrow>
             (if instanceofError error then
                (if error_name error = ''AbortError'' then
                   \<lparr>sr_outcome = Inl (ApiErr fromTimeout), sr_calls = calls, sr_waits = waits,
                    sr_request = req'\<rparr>
                 else if int attempt < maxRetries rs \<and> shouldRetryError error rs then
                   send_loop P rs req' (attempt + 1) (Some error) calls
                     (waits @ [wait (round_double P) (retry_delay rs) attempt (Math_random P attempt)])
                 else
                   \<lparr>sr_outcome = Inl (ApiErr (fromNetworkError error)), sr_calls = calls,
                    sr_waits = waits, sr_request = req'\<rparr>)
              else \<lparr>sr_outcome = Inl error, sr_calls = calls, sr_waits = waits, sr_request = req'\<rparr>)
         | (Inr call, req') \<Rightarrow>
             (case fetch P (length calls) call of
                Inr response \<Rightarrow>
                  (if \<not> ok response \<and> int attempt < maxRetries rs \<and> shouldRetryResponse response rs then
                     send_loop P rs req' (attempt + 1) lastError (calls @ [call])
                       (waits @ [wait (round_double P) (retry_delay rs) attempt (Math_random P attempt)])
                   else
                     \<lparr>sr_outcome = Inr response, sr_calls = calls @ [call], sr_waits = waits,
                      sr_request = req'\<rparr>)
              | Inl error \<Rightarrow>
                  (if instanceofError error then
                     (if error_name error = ''AbortError'' then
                        \<lparr>sr_outcome = Inl (ApiErr fromTimeout), sr_calls = calls @ [call],
                         sr_waits = waits, sr_request = req'\<rparr>
                      else if int attempt < maxRetries rs \<and> shouldRetryError error rs then
                        send_loop P rs req' (attempt + 1) (Some error) (calls @ [call])
                          (waits @ [wait (round_double P) (retry_delay rs) attempt (Math_random P attempt)])
                      else
                        \<lparr>sr_outcome = Inl (ApiErr (fromNetworkError error)), sr_calls = calls @ [call],
                         sr_waits = waits, sr_request = req'\<rparr>)
                   else
                     \<lparr>sr_outcome = Inl error, sr_calls = calls @ [call], sr_waits = waits,
                      sr_request = req'\<rparr>)))
      else
        \<lparr>sr_outcome = Inl (case lastError of Some e \<Rightarrow> e
                            | None \<Rightarrow> Err ''Error'' ''Maximum retries exceeded''),
         sr_calls = calls, sr_waits = waits, sr_request = req\<rparr>)"
  by pat_completeness auto
termination
  by (relation "measure (\<lambda>(P, rs, req, attempt, lastError, calls, waits).
                  nat (maxRetries rs + 1 - int attempt))") auto

definition send :: "('u, 'o) Platform \<Rightarrow> 'o ApiRequest \<Rightarrow> 'o SendResult" where
  "send P req = send_loop P (getRetrySettings req) req 0 None [] []"

declare send_loop.simps [simp del]

section \<open>Responses (ApiResponse, libs/core.ts)\<close>

record 'o ApiResponse =
  response :: Response
  request :: "'o ApiRequest"

text \<open>What a decode operation resolves to; \<open>Undefined\<close> is the absent value.\<close>

datatype 'o decoded =
    Undefined
  | JsonValue 'o
  | TextValue string
  | BlobValue string
  | ArrayBufferValue string

text \<open>
  Every decode operation takes the number of body reads made so far on the response and
  returns it updated, with the value or the ApiError it throws.
\<close>

definition json ::
  "('u, 'o) Platform \<Rightarrow> 'o ApiResponse \<Rightarrow> nat \<Rightarrow> (thrown + 'o decoded) \<times> nat" where
  "json P r k =
     (case res_text (response r) k of
        Inl e \<Rightarrow> (Inl (ApiErr (fromParseError ''json'' (res_status (response r)) e)), k + 1)
      | Inr t \<Rightarrow>
          if trim t = [] then (Inr Undefined, k + 1)
          else
            (case JSON_parse P t of
               Inl e \<Rightarrow> (Inl (ApiErr (fromParseError ''json'' (res_status (response r)) e)), k + 1)
             | Inr v \<Rightarrow> (Inr (JsonValue v), k + 1)))"

definition text_of ::
  "'o ApiResponse \<Rightarrow> nat \<Rightarrow> (thrown + 'o decoded) \<times> nat" where
  "text_of r k =
     (case res_text (response r) k of
        Inl e \<Rightarrow> (Inl (ApiErr (fromParseError ''text'' (res_status (response r)) e)), k + 1)
      | Inr t \<Rightarrow> (Inr (TextValue t), k + 1))"

definition blob ::
  "'o ApiResponse \<Rightarrow> nat \<Rightarrow> (thrown + 'o decoded) \<times> nat" where
  "blob r k =
     (case res_blob (response r) k of
        Inl e \<Rightarrow> (Inl (ApiErr (fromParseError ''blob'' (res_status (response r)) e)), k + 1)
      | Inr b \<Rightarrow> (Inr (BlobValue b), k + 1))"

definition arrayBuffer ::
  "'o ApiResponse \<Rightarrow> nat \<Rightarrow> (thrown + 'o decoded) \<times> nat" where
  "arrayBuffer r k =
     (case res_arrayBuffer (response r) k of
        Inl e \<Rightarrow> (Inl (ApiErr (fromParseError ''arrayBuffer'' (res_status (response r)) e)), k + 1)
      | Inr b \<Rightarrow> (Inr (ArrayBufferValue b), k + 1))"

text \<open>\<^verbatim>\<open>this.headers.get("Content-Type") || undefined\<close>: an empty value counts as none.\<close>

definition getContentType :: "'o ApiResponse \<Rightarrow> string option" where
  "getContentType r =
     (case Headers_get ''Content-Type'' (res_headers (response r)) of
        None \<Rightarrow> None
      | Some c \<Rightarrow> if c = [] then None else Some c)"

definition autoParseData ::
  "('u, 'o) Platform \<Rightarrow> 'o ApiResponse \<Rightarrow> nat \<Rightarrow> (thrown + 'o decoded) \<times> nat" where
  "autoParseData P r k =
     (let contentType = getContentType r in
      if res_status (response r) = HTTP_STATUS_NO_CONTENT \<or>
         res_status (response r) = HTTP_STATUS_NOT_MODIFIED
      then (Inr Undefined, k)
      else
        (case contentType of
           None \<Rightarrow>
             (case json P r k of
                (Inr v, k') \<Rightarrow> (Inr v, k')
              | (Inl e, k') \<Rightarrow> text_of r k')
         | Some c \<Rightarrow>
             if String_includes c CONTENT_TYPES_JSON then json P r k
             else if list_ex (\<lambda>type. String_includes c type) CONTENT_TYPES_TEXT then text_of r k
             else if CONTENT_TYPES_BINARY_test c then blob r k
             else json P r k))"

definition getData ::
  "('u, 'o) Platform \<Rightarrow> 'o ApiResponse \<Rightarrow> nat \<Rightarrow> (thrown + 'o decoded) \<times> nat" where
  "getData P r k =
     (case c_responseType (config (request r)) of
        Some RTjson \<Rightarrow> json P r k
      | Some RTtext \<Rightarrow> text_of r k
      | Some RTblob \<Rightarrow> blob r k
      | Some RTarrayBuffer \<Rightarrow> arrayBuffer r k
      | _ \<Rightarrow> autoParseData P r k)"

text \<open>
  The auto-mode rule set as the specification words it (rule 4 reads: the Content-Type
  starts with "text/" or contains "xml"), to be compared with \<open>autoParseData\<close>.
\<close>

datatype auto_rule =
    AbsentValue
  | JsonThenText
  | DecodeJson
  | DecodeText
  | DecodeBinary

definition spec_auto_rule :: "nat \<Rightarrow> string option \<Rightarrow> auto_rule" where
  "spec_auto_rule st contentType =
     (if st = 204 \<or> st = 304 then AbsentValue
      else
        (case contentType of
           None \<Rightarrow> JsonThenText
         | Some c \<Rightarrow>
             if String_includes c ''json'' then DecodeJson
             else if startsWith c ''text/'' \<or> String_includes c ''xml'' then DecodeText
             else if startsWith c ''image'' \<or> startsWith c ''video'' \<or> startsWith c ''audio'' \<or>
                     startsWith c ''application/octet-stream'' then DecodeBinary
             else DecodeJson))"

fun decode_by ::
  "('u, 'o) Platform \<Rightarrow> auto_rule \<Rightarrow> 'o ApiResponse \<Rightarrow> nat \<Rightarrow> (thrown + 'o decoded) \<times> nat" where
  "decode_by P AbsentValue r k = (Inr Undefined, k)"
| "decode_by P JsonThenText r k =
     (case json P r k of (Inr v, k') \<Rightarrow> (Inr v, k') | (Inl e, k') \<Rightarrow> text_of r k')"
| "decode_by P DecodeJson r k = json P r k"
| "decode_by P DecodeText r k = text_of r k"
| "decode_by P DecodeBinary r k = blob r k"

section \<open>Client (the facade)\<close>

record ClientConfig =
  cc_baseURL :: "string option"
  cc_timeout :: "real option"
  cc_retry :: "Retry option"
  cc_headers :: "(string \<times> string) list option"
  cc_responseType :: "ResponseType option"

record 'o Client =
  client_config :: ClientConfig
  interceptors_request :: "'o ApiRequest Interceptor"
  interceptors_response :: "'o ApiResponse Interceptor"

text \<open>
  \<^verbatim>\<open>validateConfig\<close>: the guards are truthiness tests, so a timeout of 0 and an empty
  baseURL pass them like an absent one. The pattern is \<^verbatim>\<open>/^https?:\/\//\<close>.
\<close>

definition http_pattern_test :: "string \<Rightarrow> bool" where
  "http_pattern_test s = (startsWith s ''http://'' \<or> startsWith s ''https://'')"

definition validateConfig :: "ClientConfig \<Rightarrow> thrown + unit" where
  "validateConfig c =
     (if (case cc_timeout c of Some t \<Rightarrow> t \<noteq> 0 \<and> t \<le> 0 | None \<Rightarrow> False)
      then Inl (Err ''Error'' ''Timeout must be greater than 0'')
      else if (case cc_baseURL c of Some b \<Rightarrow> b \<noteq> [] \<and> \<not> http_pattern_test b | None \<Rightarrow> False)
      then Inl (Err ''Error'' ''BaseURL must be a valid HTTP/HTTPS URL'')
      else Inr ())"

text \<open>The constructor: \<^verbatim>\<open>headers\<close> defaults to the empty record, then the configuration is validated.\<close>

definition new_Client :: "ClientConfig \<Rightarrow> thrown + 'o Client" where
  "new_Client c =
     (let cfg = c\<lparr>cc_headers := Some (case cc_headers c of Some h \<Rightarrow> h | None \<Rightarrow> [])\<rparr> in
      case validateConfig cfg of
        Inl e \<Rightarrow> Inl e
      | Inr u \<Rightarrow>
          Inr \<lparr>client_config = cfg, interceptors_request = new_Interceptor,
               interceptors_response = new_Interceptor\<rparr>)"

text \<open>
  Object spread of two records of headers: the keys of the first keep their place, a key of
  the second replaces the value of an equal key (case-sensitively) or is added at the end.
\<close>

fun record_set :: "string \<Rightarrow> string \<Rightarrow> (string \<times> string) list \<Rightarrow> (string \<times> string) list" where
  "record_set k v [] = [(k, v)]"
| "record_set k v ((k', v') # m) = (if k' = k then (k, v) # m else (k', v') # record_set k v m)"

definition spread :: "(string \<times> string) list \<Rightarrow> (string \<times> string) list \<Rightarrow> (string \<times> string) list" where
  "spread a b = foldl (\<lambda>m (k, v). record_set k v m) (foldl (\<lambda>m (k, v). record_set k v m) [] a) b"

text \<open>
  \<^verbatim>\<open>mergeConfig\<close>: a field the request configuration has wins over the client's; an
  optional field is present when it is not \<open>None\<close>.
\<close>

definition mergeConfig :: "'o Client \<Rightarrow> 'o RequestConfig \<Rightarrow> 'o RequestConfig" where
  "mergeConfig cl rc =
     rc\<lparr>c_baseURL := (case c_baseURL rc of Some b \<Rightarrow> Some b | None \<Rightarrow> cc_baseURL (client_config cl)),
        c_timeout := (case c_timeout rc of Some t \<Rightarrow> Some t | None \<Rightarrow> cc_timeout (client_config cl)),
        c_retry := (case c_retry rc of Some r \<Rightarrow> Some r | None \<Rightarrow> cc_retry (client_config cl)),
        c_headers := spread (case cc_headers (client_config cl) of Some h \<Rightarrow> h | None \<Rightarrow> [])
                       (c_headers rc),
        c_responseType :=
          Some (case c_responseType rc of
                  Some t \<Rightarrow> t
                | None \<Rightarrow> (case cc_responseType (client_config cl) of
                             Some t \<Rightarrow> t | None \<Rightarrow> DEFAULT_RESPONSE_TYPE))\<rparr>"

definition normalizeError :: "thrown \<Rightarrow> ApiError" where
  "normalizeError error =
     (case error of
        ApiErr e \<Rightarrow> e
      | Err n m \<Rightarrow> fromNetworkError error
      | NonError truthy str \<Rightarrow>
          \<lparr>code = ''UNKNOWN_ERROR'', status = 0,
           message = (if truthy then str else ''Unknown error occurred'')\<rparr>)"

text \<open>
  \<^verbatim>\<open>Client.request\<close>. The request interceptors and \<^verbatim>\<open>send\<close> are awaited inside the
  \<^verbatim>\<open>try\<close> block, so what they throw reaches \<^verbatim>\<open>normalizeError\<close>. The promise of the
  response interceptors is returned from the \<^verbatim>\<open>try\<close> block without \<^verbatim>\<open>await\<close>: the
  async function resolves to that promise, and its rejection does not pass through the
  \<^verbatim>\<open>catch\<close> block. The result comes with the transport calls made.
\<close>

definition Client_request ::
  "('u, 'o) Platform \<Rightarrow> 'o Client \<Rightarrow> 'o RequestConfig \<Rightarrow>
   (thrown + 'o ApiResponse) \<times> 'o FetchCall list" where
  "Client_request P cl requestConfig =
     (let mergedConfig = mergeConfig cl requestConfig;
          apiRequest = new_ApiRequest mergedConfig
      in case execute (interceptors_request cl) apiRequest of
           Inl error \<Rightarrow> (Inl (ApiErr (normalizeError error)), [])
         | Inr processedRequest \<Rightarrow>
             (let sr = send P processedRequest in
              case sr_outcome sr of
                Inl error \<Rightarrow> (Inl (ApiErr (normalizeError error)), sr_calls sr)
              | Inr rawResponse \<Rightarrow>
                  (execute (interceptors_response cl)
                     \<lparr>response = rawResponse, request = sr_request sr\<rparr>,
                   sr_calls sr)))"

text \<open>\<^verbatim>\<open>Client.execute\<close>: the request, then \<^verbatim>\<open>getData\<close> on the response (its first body read).\<close>

definition Client_execute ::
  "('u, 'o) Platform \<Rightarrow> 'o Client \<Rightarrow> 'o RequestConfig \<Rightarrow> thrown + 'o decoded" where
  "Client_execute P cl requestConfig =
     (case fst (Client_request P cl requestConfig) of
        Inl e \<Rightarrow> Inl e
      | Inr r \<Rightarrow> fst (getData P r 0))"

section \<open>Vocabulary of the properties\<close>

text \<open>
  The condition under which the loop of \<^verbatim>\<open>send\<close> goes on to the next attempt after
  an attempt's outcome, when attempts remain.
\<close>

definition retried :: "RetrySettings \<Rightarrow> thrown + Response \<Rightarrow> bool" where
  "retried rs out =
     (case out of
        Inr r \<Rightarrow> \<not> ok r \<and> shouldRetryResponse r rs
      | Inl e \<Rightarrow> instanceofError e \<and> error_name e \<noteq> ''AbortError'' \<and> shouldRetryError e rs)"

text \<open>
  A failure that the default retry predicate accepts: a response whose status is in the
  default retry status set, or a thrown Error that is not an abort.
\<close>

definition retryable_by_default :: "thrown + Response \<Rightarrow> bool" where
  "retryable_by_default out =
     (case out of
        Inr r \<Rightarrow> res_status r \<in> set DEFAULT_RETRY_STATUSES
      | Inl e \<Rightarrow> instanceofError e \<and> error_name e \<noteq> ''AbortError'')"

text \<open>
  What the properties of \<^verbatim>\<open>wait\<close> need of the rounding of double arithmetic: it is
  monotone and it leaves a double unchanged (so \<open>fl x = x\<close> says that \<open>x\<close> is a double).
  Rounding to nearest in binary64 has both properties.
\<close>

definition rounding :: "(real \<Rightarrow> real) \<Rightarrow> bool" where
  "rounding fl = ((\<forall>x y. x \<le> y \<longrightarrow> fl x \<le> fl y) \<and> (\<forall>x. fl (fl x) = fl x))"

section \<open>Example inputs\<close>

text \<open>
  A platform for the examples: an object stands for its JSON text, a URL is a string and
  is resolved by concatenation (a relative URL with no base is invalid, as for the
  platform's \<^verbatim>\<open>URL\<close>), \<^verbatim>\<open>Math.random()\<close> returns one half, and numbers are rounded to
  the nearest multiple of 1/1024. A response's body can be read once; a second read throws,
  as the platform's does.
\<close>

definition example_round :: "real \<Rightarrow> real" where
  "example_round x = of_int (round (x * 1024)) / 1024"

definition example_Platform ::
  "(nat \<Rightarrow> string FetchCall \<Rightarrow> thrown + Response) \<Rightarrow> (string, string) Platform" where
  "example_Platform f =
     \<lparr>fetch = f, Math_random = (\<lambda>i. 1 / 2), round_double = example_round, JSON_stringify = (\<lambda>obj. Inr obj),
      JSON_parse = (\<lambda>t. if startsWith t ''{'' then Inr t
                          else Inl (Err ''SyntaxError'' ''Unexpected token'')),
      URL_new = (\<lambda>u b. case b of
                          Some base \<Rightarrow> Inr (base @ u)
                        | None \<Rightarrow> if http_pattern_test u then Inr u
                                  else Inl (Err ''TypeError'' ''Invalid URL'')),
      URL_searchParams_append = (\<lambda>u (k, v). u @ ''&'' @ k @ ''='' @ v),
      URL_toString = (\<lambda>u. u)\<rparr>"

definition example_Response :: "nat \<Rightarrow> string option \<Rightarrow> string \<Rightarrow> Response" where
  "example_Response st ct body =
     \<lparr>res_status = st, res_statusText = [],
      res_headers = (case ct of None \<Rightarrow> [] | Some c \<Rightarrow> new_Headers [(''Content-Type'', c)]),
      res_text = (\<lambda>k. if k = 0 then Inr body else Inl (Err ''TypeError'' ''Body already read'')),
      res_blob = (\<lambda>k. if k = 0 then Inr body else Inl (Err ''TypeError'' ''Body already read'')),
      res_arrayBuffer = (\<lambda>k. if k = 0 then Inr body else Inl (Err ''TypeError'' ''Body already read''))\<rparr>"

definition example_config :: "HttpMethod \<Rightarrow> string \<Rightarrow> string RequestConfig" where
  "example_config m u =
     \<lparr>c_baseURL = Some ''https://api.test'', c_timeout = None, c_method = m, c_params = None,
      c_url = u, c_responseType = None, c_data = None, c_retry = None, c_headers = []\<rparr>"

text \<open>A POST of the object \<^verbatim>\<open>{}\<close> with the bare retry count 2 and a timeout of 50 ms.\<close>

definition example_request :: "string ApiRequest" where
  "example_request =
     new_ApiRequest ((example_config POST ''/users'')
       \<lparr>c_data := Some (BObject ''{}''), c_retry := Some (RetryNumber 2), c_timeout := Some 50\<rparr>)"

definition example_call :: "string FetchCall" where
  "example_call =
     \<lparr>fc_url = ''https://api.test/users'', fc_method = POST,
      fc_headers = [(''content-type'', ''application/json'')],
      fc_body = Some (BString ''{}''), fc_timeout = Some 50\<rparr>"

definition append_A :: "string InterceptorHandler" where
  "append_A s = Inr (s @ ''A'')"

definition append_B :: "string InterceptorHandler" where
  "append_B s = Inr (s @ ''B'')"

text \<open>The same request with the relative URL and no baseURL.\<close>

definition example_request_relative :: "string ApiRequest" where
  "example_request_relative =
     new_ApiRequest ((example_config POST ''/users'')
       \<lparr>c_baseURL := None, c_data := Some (BObject ''{}''), c_retry := Some (RetryNumber 2)\<rparr>)"

text \<open>The same request with a Content-Type of the caller's own.\<close>

definition example_request_vnd :: "string ApiRequest" where
  "example_request_vnd =
     new_ApiRequest ((example_config POST ''/users'')
       \<lparr>c_data := Some (BObject ''{}''),
        c_headers := [(''Content-Type'', ''application/vnd.api+json'')]\<rparr>)"

text \<open>A GET request to which a body is supplied all the same.\<close>

definition example_request_get :: "string ApiRequest" where
  "example_request_get =
     new_ApiRequest ((example_config GET ''/users'')\<lparr>c_data := Some (BObject ''{}'')\<rparr>)"

definition example_ClientConfig :: "real option \<Rightarrow> string option \<Rightarrow> ClientConfig" where
  "example_ClientConfig t b =
     \<lparr>cc_baseURL = b, cc_timeout = t, cc_retry = None, cc_headers = None, cc_responseType = None\<rparr>"

definition example_ApiResponse :: "nat \<Rightarrow> string option \<Rightarrow> string \<Rightarrow> string ApiResponse" where
  "example_ApiResponse st ct body =
     \<lparr>response = example_Response st ct body, request = example_request\<rparr>"

text \<open>A transport that answers every call with 200 and the JSON body \<^verbatim>\<open>{}\<close>.\<close>

definition example_fetch_200 :: "nat \<Rightarrow> string FetchCall \<Rightarrow> thrown + Response" where
  "example_fetch_200 k c = Inr (example_Response 200 (Some ''application/json'') ''{}'')"

text \<open>A client whose only response interceptor throws \<^verbatim>\<open>new Error("boom")\<close>, and a GET through it.\<close>

definition throwing_handler :: "string ApiResponse InterceptorHandler" where
  "throwing_handler r = Inl (Err ''Error'' ''boom'')"

definition example_Client :: "string Client" where
  "example_Client =
     \<lparr>client_config = \<lparr>cc_baseURL = Some ''https://api.test'', cc_timeout = None, cc_retry = None,
                        cc_headers = Some [], cc_responseType = None\<rparr>,
      interceptors_request = new_Interceptor,
      interceptors_response = snd (use (Function throwing_handler) new_Interceptor)\<rparr>"

definition example_get :: "string RequestConfig" where
  "example_get =
     \<lparr>c_baseURL = None, c_timeout = None, c_method = GET, c_params = None, c_url = ''/users/1'',
      c_responseType = None, c_data = None, c_retry = None, c_headers = []\<rparr>"

section \<open>Interceptor: handles and order of execution\<close>

lemma run_calls_bounds:
  "run_calls cs ic = (ks, ic') \<Longrightarrow>
     nextId ic \<le> nextId ic' \<and> list_all (\<lambda>k. nextId ic \<le> k \<and> k < nextId ic') ks"
proof (induction cs arbitrary: ic ks ic')
  case Nil
  then show ?case by simp
next
  case (Cons c cs)
  show ?case
  proof (cases c)
    case (CallUse h)
    show ?thesis
    proof (cases h)
      case NotFunction
      with Cons CallUse show ?thesis by simp
    next
      case (Function f)
      let ?ic1 = "ic\<lparr>handlers := Map_set (nextId ic) f (handlers ic), nextId := nextId ic + 1\<rparr>"
      obtain ks' ic2 where rc: "run_calls cs ?ic1 = (ks', ic2)"
        by (cases "run_calls cs ?ic1")
      from Cons.IH[OF rc]
      have ih: "Suc (nextId ic) \<le> nextId ic2"
               "list_all (\<lambda>k. Suc (nextId ic) \<le> k \<and> k < nextId ic2) ks'"
        by simp_all
      from Cons.prems CallUse Function rc have "ks = nextId ic # ks'" "ic' = ic2"
        by simp_all
      with ih show ?thesis by (auto simp: list_all_iff)
    qed
  next
    case (CallReject k)
    with Cons.prems have "run_calls cs (reject k ic) = (ks, ic')" by simp
    from Cons.IH[OF this] show ?thesis by (simp add: reject_def)
  next
    case CallClear
    with Cons.prems have "run_calls cs (clear ic) = (ks, ic')" by simp
    from Cons.IH[OF this] show ?thesis by (simp add: clear_def)
  next
    case (CallExecute x)
    with Cons show ?thesis by simp
  qed
qed

lemma run_calls_sorted:
  "run_calls cs ic = (ks, ic') \<Longrightarrow> sorted_wrt (<) ks"
proof (induction cs arbitrary: ic ks ic')
  case Nil
  then show ?case by simp
next
  case (Cons c cs)
  show ?case
  proof (cases c)
    case (CallUse h)
    show ?thesis
    proof (cases h)
      case NotFunction
      with Cons CallUse show ?thesis by simp
    next
      case (Function f)
      let ?ic1 = "ic\<lparr>handlers := Map_set (nextId ic) f (handlers ic), nextId := nextId ic + 1\<rparr>"
      obtain ks' ic2 where rc: "run_calls cs ?ic1 = (ks', ic2)"
        by (cases "run_calls cs ?ic1")
      from run_calls_bounds[OF rc] have "list_all (\<lambda>j. nextId ic < j) ks'"
        by (auto simp: list_all_iff)
      moreover from Cons.IH[OF rc] have "sorted_wrt (<) ks'" .
      moreover from Cons.prems CallUse Function rc have "ks = nextId ic # ks'" by simp
      ultimately show ?thesis by (auto simp: list_all_iff)
    qed
  next
    case (CallReject k)
    with Cons show ?thesis by simp
  next
    case CallClear
    with Cons show ?thesis by simp
  next
    case (CallExecute x)
    with Cons show ?thesis by simp
  qed
qed

lemma map_of_Map_set: "map_of (Map_set k v m) k = Some v"
  by (induction m) auto

lemma Map_set_fresh: "list_all (\<lambda>(k', v'). k' \<noteq> k) m \<Longrightarrow> Map_set k v m = m @ [(k, v)]"
  by (induction m) auto

lemma keys_below_fresh: "keys_below ic \<Longrightarrow> list_all (\<lambda>(k', v'). k' \<noteq> nextId ic) (handlers ic)"
  by (auto simp: keys_below_def list_all_iff)

lemma run_handlers_append:
  "run_handlers (hs @ hs') x = (case run_handlers hs x of Inl e \<Rightarrow> Inl e | Inr y \<Rightarrow> run_handlers hs' y)"
  by (induction hs arbitrary: x) (auto split: sum.splits)

lemma Map_delete_fresh: "list_all (\<lambda>(k', v'). k' \<noteq> k) m \<Longrightarrow> Map_delete k m = m"
  by (induction m) (auto simp: Map_delete_def)

lemma Map_delete_append: "Map_delete k (m @ m') = Map_delete k m @ Map_delete k m'"
  by (simp add: Map_delete_def)

lemma keys_below_new: "keys_below new_Interceptor"
  by (simp add: keys_below_def new_Interceptor_def)

lemma set_Map_set: "(a, b) \<in> set (Map_set k v m) \<Longrightarrow> a = k \<or> (a, b) \<in> set m"
  by (induction m) (auto split: if_splits)

lemma keys_below_use: "keys_below ic \<Longrightarrow> keys_below (snd (use h ic))"
  by (cases h) (fastforce simp: keys_below_def list_all_iff dest: set_Map_set)+

lemma keys_below_reject: "keys_below ic \<Longrightarrow> keys_below (reject k ic)"
  by (auto simp: keys_below_def reject_def Map_delete_def list_all_iff)

lemma keys_below_clear: "keys_below ic \<Longrightarrow> keys_below (clear ic)"
  by (auto simp: keys_below_def clear_def)

lemma keys_below_run_calls: "keys_below ic \<Longrightarrow> keys_below (snd (run_calls cs ic))"
proof (induction cs arbitrary: ic)
  case Nil
  then show ?case by simp
next
  case (Cons c cs)
  show ?case
  proof (cases c)
    case (CallUse h)
    from Cons.IH[OF keys_below_use[OF Cons.prems, of h]] CallUse show ?thesis
      by (cases h) (auto split: prod.splits)
  next
    case (CallReject k)
    with Cons.IH[OF keys_below_reject[OF Cons.prems, of k]] show ?thesis by simp
  next
    case CallClear
    with Cons.IH[OF keys_below_clear[OF Cons.prems]] show ?thesis by simp
  next
    case (CallExecute x)
    with Cons show ?thesis by simp
  qed
qed

lemma handlers_use_all:
  "keys_below ic \<Longrightarrow> map snd (handlers (use_all fs ic)) = map snd (handlers ic) @ fs"
proof (induction fs arbitrary: ic)
  case Nil
  then show ?case by (simp add: use_all_def)
next
  case (Cons f fs)
  let ?ic1 = "snd (use (Function f) ic)"
  have kb: "keys_below ?ic1" by (rule keys_below_use[OF Cons.prems])
  have "handlers ?ic1 = handlers ic @ [(nextId ic, f)]"
    using Map_set_fresh[OF keys_below_fresh[OF Cons.prems]] by simp
  with Cons.IH[OF kb] show ?case by (simp add: use_all_def)
qed

text \<open>
  C10. \<^verbatim>\<open>Interceptor.use\<close> throws a TypeError for an argument that is not a function and
  leaves the interceptor as it was; for a function it returns the current counter as the
  handle, stores the handler under it and increments the counter. In any sequence of calls
  (\<^verbatim>\<open>use\<close>, \<^verbatim>\<open>reject\<close>, \<^verbatim>\<open>clear\<close>, \<^verbatim>\<open>execute\<close>) the handles returned are strictly
  increasing, hence never reused, and none is below the counter at the start.
\<close>

theorem use_handles:
  "use NotFunction ic = (Inl (Err ''TypeError'' ''Handler must be a function''), ic) \<and>
   fst (use (Function h) ic) = Inr (nextId ic) \<and>
   map_of (handlers (snd (use (Function h) ic))) (nextId ic) = Some h \<and>
   nextId (snd (use (Function h) ic)) = nextId ic + 1 \<and>
   sorted_wrt (<) (fst (run_calls cs ic)) \<and>
   list_all (\<lambda>k. nextId ic \<le> k) (fst (run_calls cs ic))"
proof -
  obtain ks ic' where rc: "run_calls cs ic = (ks, ic')" by (cases "run_calls cs ic")
  from run_calls_sorted[OF rc] run_calls_bounds[OF rc] rc
  show ?thesis by (auto simp: map_of_Map_set list_all_iff)
qed

text \<open>
  C6. On an interceptor whose keys are below its counter (every interceptor that calls of
  its methods reach), registering A then B and executing runs the handlers already there,
  then A, then B, each on the output of the one before; after A's handle is rejected, B
  runs directly on the output of the handlers already there. On a new interceptor this is
  B(A(x)), and B(x) after the removal.
\<close>

theorem execute_order:
  assumes "keys_below ic"
    and "use (Function A) ic = (Inr a, ic1)"
    and "use (Function B) ic1 = (Inr b, ic2)"
  shows "execute ic2 x =
           (case execute ic x of Inl e \<Rightarrow> Inl e
            | Inr y \<Rightarrow> (case handler_step A y of Inl e \<Rightarrow> Inl e | Inr z \<Rightarrow> handler_step B z)) \<and>
         execute (reject a ic2) x =
           (case execute ic x of Inl e \<Rightarrow> Inl e | Inr y \<Rightarrow> handler_step B y)"
proof -
  let ?n = "nextId ic"
  have fresh: "list_all (\<lambda>(k', v'). k' \<noteq> ?n) (handlers ic)"
    by (rule keys_below_fresh[OF assms(1)])
  have fresh': "list_all (\<lambda>(k', v'). k' \<noteq> Suc ?n) (handlers ic)"
    using assms(1) by (auto simp: keys_below_def list_all_iff)
  from assms(2) have a: "a = ?n" and h1: "handlers ic1 = handlers ic @ [(?n, A)]"
    and n1: "nextId ic1 = Suc ?n"
    using Map_set_fresh[OF fresh] by auto
  have fresh1: "list_all (\<lambda>(k', v'). k' \<noteq> Suc ?n) (handlers ic1)"
    using fresh' by (simp add: h1)
  from assms(3) n1 have h2: "handlers ic2 = handlers ic @ [(?n, A), (Suc ?n, B)]"
    using Map_set_fresh[OF fresh1, of B] by (auto simp: h1)
  have del: "handlers (reject a ic2) = handlers ic @ [(Suc ?n, B)]"
    using Map_delete_fresh[OF fresh] by (simp add: reject_def h2 a Map_delete_append) (simp add: Map_delete_def)
  show ?thesis
    by (simp add: execute_def h2 del run_handlers_append split: sum.splits)
qed

theorem execute_order_witness:
  "keys_below (new_Interceptor :: string Interceptor) \<and>
   execute (snd (use (Function append_B) (snd (use (Function append_A) new_Interceptor)))) ''x''
     = Inr ''xAB'' \<and>
   execute (reject 0 (snd (use (Function append_B) (snd (use (Function append_A) new_Interceptor)))))
     ''x'' = Inr ''xB''"
  using execute_order[OF keys_below_new, of append_A 0
          "snd (use (Function append_A) new_Interceptor)" append_B 1
          "snd (use (Function append_B) (snd (use (Function append_A) new_Interceptor)))" "''x''"]
  by (simp add: new_Interceptor_def execute_def handler_step_def append_A_def append_B_def
                keys_below_def)

section \<open>The retry loop of send\<close>

lemma set_entry_idem: "set_entry k v (set_entry k v hs) = set_entry k v hs"
  by (induction hs) auto

lemma Headers_set_idem: "Headers_set n v (Headers_set n v hs) = Headers_set n v hs"
  by (simp add: Headers_set_def set_entry_idem)

lemma filter_set_entry: "filter (\<lambda>p. fst p = k) (set_entry k v hs) = [(k, v)]"
proof (induction hs)
  case Nil
  then show ?case by simp
next
  case (Cons p hs)
  have "filter (\<lambda>q. fst q = k) (filter (\<lambda>q. fst q \<noteq> k) hs) = []"
    by (induction hs) auto
  with Cons show ?case by (cases p) auto
qed

lemma Headers_get_set: "Headers_get n (Headers_set n v hs) = Some v"
  by (simp add: Headers_get_def Headers_set_def filter_set_entry)


lemma createBody_cases:
  "createBody P req =
     (if req_method req \<in> set READ_ONLY_METHODS \<or> data req = None then (Inr None, req)
      else case the (data req) of
             BObject obj \<Rightarrow>
               (case JSON_stringify P obj of
                  Inl e \<Rightarrow> (Inl e, req\<lparr>headers := Headers_set ''Content-Type'' JSON_CONTENT_TYPE (headers req)\<rparr>)
                | Inr s \<Rightarrow> (Inr (Some (BString s)), req\<lparr>headers := Headers_set ''Content-Type'' JSON_CONTENT_TYPE (headers req)\<rparr>))
           | BPrimitive s \<Rightarrow> (Inr (Some (BString s)), req)
           | d \<Rightarrow> (Inr (Some d), req))"
proof (cases "data req")
  case None
  then show ?thesis by (simp add: createBody_def)
next
  case (Some d)
  then show ?thesis by (cases d) (simp_all add: createBody_def Let_def)
qed


lemma createBody_fields:
  assumes "createBody P req = (r, req')"
  shows "config req' = config req \<and> params req' = params req \<and> data req' = data req \<and>
     req_method req' = req_method req \<and> timeout req' = timeout req \<and> retry req' = retry req"
proof (cases "data req")
  case None
  with assms show ?thesis by (simp add: createBody_def)
next
  case (Some d)
  with assms show ?thesis
    by (cases d; cases "req_method req \<in> set READ_ONLY_METHODS")
       (auto simp: createBody_def Let_def split: sum.splits)
qed

lemma createBody_stable:
  assumes "createBody P req = (Inr b, req')"
  shows "createBody P req' = (Inr b, req')"
proof (cases "data req")
  case None
  with assms show ?thesis by (simp add: createBody_def)
next
  case (Some d)
  with assms show ?thesis
    by (cases d; cases "req_method req \<in> set READ_ONLY_METHODS")
       (auto simp: createBody_def Let_def Headers_set_idem split: sum.splits)
qed

lemma fetch_arguments_stable:
  assumes "fetch_arguments P req = (Inr c, req')"
  shows "fetch_arguments P req' = (Inr c, req')"
proof -
  from assms obtain u where u: "buildUrl P req = Inr u"
    by (cases "buildUrl P req") (auto simp: fetch_arguments_def)
  from assms u obtain b where cb: "createBody P req = (Inr b, req')"
    by (cases "createBody P req"; cases "fst (createBody P req)")
       (auto simp: fetch_arguments_def)
  from assms u cb have c: "c = \<lparr>fc_url = u, fc_method = req_method req', fc_headers = headers req', fc_body = b,
                     fc_timeout = (case timeout req' of
                                     Some t \<Rightarrow> if t \<noteq> 0 then Some t else None
                                   | None \<Rightarrow> None)\<rparr>"
    by (simp add: fetch_arguments_def)
  have "buildUrl P req' = buildUrl P req"
    using createBody_fields[OF cb] by (auto simp: buildUrl_def split: sum.splits)
  with u createBody_stable[OF cb] c show ?thesis
    by (simp add: fetch_arguments_def)
qed


lemma send_loop_retry:
  assumes "fetch_arguments P req = (Inr c, req')"
    and "int attempt < maxRetries rs"
    and "retried rs (fetch P (length calls) c)"
  shows "\<exists>le'. send_loop P rs req attempt le calls waits =
           send_loop P rs req' (attempt + 1) le' (calls @ [c])
             (waits @ [wait (round_double P) (retry_delay rs) attempt (Math_random P attempt)])"
proof (cases "fetch P (length calls) c")
  case (Inl e)
  with assms show ?thesis
    by (subst send_loop.simps) (auto simp: retried_def)
next
  case (Inr r)
  with assms show ?thesis
    by (subst send_loop.simps) (auto simp: retried_def)
qed

lemma send_loop_last:
  assumes "fetch_arguments P req = (Inr c, req')"
    and "int attempt = maxRetries rs"
  shows "send_loop P rs req attempt le calls waits =
           \<lparr>sr_outcome = (case fetch P (length calls) c of
                            Inr r \<Rightarrow> Inr r
                          | Inl e \<Rightarrow>
                              if instanceofError e then
                                if error_name e = ''AbortError'' then Inl (ApiErr fromTimeout)
                                else Inl (ApiErr (fromNetworkError e))
                              else Inl e),
            sr_calls = calls @ [c], sr_waits = waits, sr_request = req'\<rparr>"
  using assms
  by (subst send_loop.simps) (auto split: sum.splits)

lemma send_loop_abort:
  assumes "fetch_arguments P req = (Inr c, req')"
    and "int attempt \<le> maxRetries rs"
    and "fetch P (length calls) c = Inl e" and "instanceofError e" and "error_name e = ''AbortError''"
  shows "send_loop P rs req attempt le calls waits =
           \<lparr>sr_outcome = Inl (ApiErr fromTimeout),
            sr_calls = calls @ [c], sr_waits = waits, sr_request = req'\<rparr>"
  using assms
  by (subst send_loop.simps) auto

text \<open>After k retried attempts the loop is at attempt + k, with k more calls and waits.\<close>

lemma send_loop_skip:
  assumes "fetch_arguments P req = (Inr c, req)"
    and "int (attempt + k) \<le> maxRetries rs"
    and "\<forall>j<k. retried rs (fetch P (length calls + j) c)"
  shows "\<exists>le'. send_loop P rs req attempt le calls waits =
           send_loop P rs req (attempt + k) le' (calls @ replicate k c)
             (waits @ map (\<lambda>i. wait (round_double P) (retry_delay rs) i (Math_random P i)) [attempt ..< attempt + k])"
  using assms
proof (induction k arbitrary: attempt le calls waits)
  case 0
  then show ?case by auto
next
  case (Suc k)
  from Suc.prems have lt: "int attempt < maxRetries rs" by simp
  from Suc.prems have r0: "retried rs (fetch P (length calls) c)" by force
  from send_loop_retry[OF Suc.prems(1) lt r0]
  obtain le1 where s1: "send_loop P rs req attempt le calls waits =
           send_loop P rs req (attempt + 1) le1 (calls @ [c])
             (waits @ [wait (round_double P) (retry_delay rs) attempt (Math_random P attempt)])" by blast
  have b: "int (attempt + 1 + k) \<le> maxRetries rs" using Suc.prems(2) by simp
  have r: "\<forall>j<k. retried rs (fetch P (length (calls @ [c]) + j) c)"
    using Suc.prems(3) by auto
  from Suc.IH[OF Suc.prems(1) b r]
  obtain le2 where s2: "send_loop P rs req (attempt + 1) le1 (calls @ [c])
             (waits @ [wait (round_double P) (retry_delay rs) attempt (Math_random P attempt)]) =
           send_loop P rs req (attempt + 1 + k) le2 ((calls @ [c]) @ replicate k c)
             ((waits @ [wait (round_double P) (retry_delay rs) attempt (Math_random P attempt)]) @
               map (\<lambda>i. wait (round_double P) (retry_delay rs) i (Math_random P i)) [attempt + 1 ..< attempt + 1 + k])"
    by blast
  have e1: "(calls @ [c]) @ replicate k c = calls @ replicate (Suc k) c"
    by (simp add: replicate_app_Cons_same)
  have e2: "(waits @ [wait (round_double P) (retry_delay rs) attempt (Math_random P attempt)]) @
               map (\<lambda>i. wait (round_double P) (retry_delay rs) i (Math_random P i)) [attempt + 1 ..< attempt + Suc k] =
            waits @ map (\<lambda>i. wait (round_double P) (retry_delay rs) i (Math_random P i)) [attempt ..< attempt + Suc k]"
    by (simp add: upt_conv_Cons del: upt_Suc)
  have e3: "attempt + 1 + k = attempt + Suc k" by simp
  from s2 have s3: "send_loop P rs req (attempt + 1) le1 (calls @ [c])
             (waits @ [wait (round_double P) (retry_delay rs) attempt (Math_random P attempt)]) =
           send_loop P rs req (attempt + Suc k) le2 (calls @ replicate (Suc k) c)
             (waits @ map (\<lambda>i. wait (round_double P) (retry_delay rs) i (Math_random P i)) [attempt ..< attempt + Suc k])"
    unfolding e1 e3 e2 .
  show ?case
    by (rule exI[of _ le2]) (simp only: s1 s3)
qed


lemma retryable_by_default_retried:
  assumes "retry req = Some (RetryNumber n)" and "retryable_by_default out"
  shows "retried (getRetrySettings req) out"
proof (cases out)
  case (Inl e)
  with assms show ?thesis
    by (simp add: retried_def retryable_by_default_def getRetrySettings_def shouldRetryError_def)
next
  case (Inr r)
  with assms show ?thesis
    by (auto simp: retried_def retryable_by_default_def getRetrySettings_def
                   shouldRetryResponse_def ok_def DEFAULT_RETRY_STATUSES_def)
qed

lemma send_first:
  assumes "fetch_arguments P req = (Inr c, req')" and "0 \<le> maxRetries (getRetrySettings req)"
  shows "send P req = send_loop P (getRetrySettings req) req' 0 None [] []"
proof -
  from fetch_arguments_stable[OF assms(1)] have st: "fetch_arguments P req' = (Inr c, req')" .
  show ?thesis
    unfolding send_def
    by (simp add: send_loop.simps[of P "getRetrySettings req" req 0 None "[]" "[]"]
                  send_loop.simps[of P "getRetrySettings req" req' 0 None "[]" "[]"] assms st)
qed

text \<open>
  C1, as the code has it. When the retry policy is the bare non-negative integer N, the
  arguments of \<^verbatim>\<open>fetch\<close> (the URL and the body) build without throwing, to the call c,
  and every one of the transport invocations 0..N fails with a response whose status is in
  the default retry status set or with a thrown Error that is not an abort, \<^verbatim>\<open>send\<close>
  invokes the transport exactly N + 1 times (with N waits in between) and then returns the
  last response or throws the network error made from the last error.
\<close>

theorem send_bare_retry_count:
  assumes "retry req = Some (RetryNumber (int N))"
    and "fst (fetch_arguments P req) = Inr c"
    and "\<forall>j\<le>N. retryable_by_default (fetch P j c)"
  shows "sr_calls (send P req) = replicate (N + 1) c \<and>
         length (sr_calls (send P req)) = N + 1 \<and>
         length (sr_waits (send P req)) = N \<and>
         sr_outcome (send P req) =
           (case fetch P N c of
              Inr r \<Rightarrow> Inr r
            | Inl e \<Rightarrow> Inl (ApiErr (fromNetworkError e)))"
proof -
  let ?rs = "getRetrySettings req"
  obtain req' where fa: "fetch_arguments P req = (Inr c, req')"
    using assms(2) by (cases "fetch_arguments P req") auto
  have st: "fetch_arguments P req' = (Inr c, req')" by (rule fetch_arguments_stable[OF fa])
  have mr: "maxRetries ?rs = int N" using assms(1) by (simp add: getRetrySettings_def)
  have s0: "send P req = send_loop P ?rs req' 0 None [] []"
    by (rule send_first[OF fa]) (simp add: mr)
  have "\<exists>le'. send_loop P ?rs req' 0 None [] [] =
      send_loop P ?rs req' (0 + N) le' ([] @ replicate N c)
        ([] @ map (\<lambda>i. wait (round_double P) (retry_delay ?rs) i (Math_random P i)) [0 ..< 0 + N])"
    by (rule send_loop_skip[OF st])
       (use assms(3) retryable_by_default_retried[OF assms(1)] mr in simp_all)
  then obtain le' where s1: "send_loop P ?rs req' 0 None [] [] =
      send_loop P ?rs req' N le' (replicate N c)
        (map (\<lambda>i. wait (round_double P) (retry_delay ?rs) i (Math_random P i)) [0 ..< N])"
    by auto
  have s2: "send_loop P ?rs req' N le' (replicate N c)
        (map (\<lambda>i. wait (round_double P) (retry_delay ?rs) i (Math_random P i)) [0 ..< N]) =
      \<lparr>sr_outcome = (case fetch P (length (replicate N c)) c of
                            Inr r \<Rightarrow> Inr r
                          | Inl e \<Rightarrow>
                              if instanceofError e then
                                if error_name e = ''AbortError'' then Inl (ApiErr fromTimeout)
                                else Inl (ApiErr (fromNetworkError e))
                              else Inl e),
            sr_calls = replicate N c @ [c],
            sr_waits = map (\<lambda>i. wait (round_double P) (retry_delay ?rs) i (Math_random P i)) [0 ..< N],
            sr_request = req'\<rparr>"
    by (rule send_loop_last[OF st]) (simp add: mr)
  have last: "retryable_by_default (fetch P N c)" using assms(3) by simp
  have out: "(case fetch P N c of
                            Inr r \<Rightarrow> Inr r
                          | Inl e \<Rightarrow>
                              if instanceofError e then
                                if error_name e = ''AbortError'' then Inl (ApiErr fromTimeout)
                                else Inl (ApiErr (fromNetworkError e))
                              else Inl e) =
             (case fetch P N c of Inr r \<Rightarrow> Inr r | Inl e \<Rightarrow> Inl (ApiErr (fromNetworkError e)))"
    using last by (auto simp: retryable_by_default_def split: sum.splits)
  show ?thesis
    by (simp add: s0 s1 s2 out replicate_append_same)
qed

theorem send_bare_retry_count_witness:
  "retry example_request = Some (RetryNumber (int 2)) \<and>
   fst (fetch_arguments (example_Platform (\<lambda>k c. Inr (example_Response 503 None []))) example_request)
     = Inr example_call \<and>
   length (sr_calls (send (example_Platform (\<lambda>k c. Inr (example_Response 503 None [])))
                       example_request)) = 3 \<and>
   sr_outcome (send (example_Platform (\<lambda>k c. Inr (example_Response 503 None []))) example_request)
     = Inr (example_Response 503 None [])"
proof -
  let ?P = "example_Platform (\<lambda>k c. Inr (example_Response 503 None []))"
  have r: "retry example_request = Some (RetryNumber (int 2))"
    by (simp add: example_request_def new_ApiRequest_def example_config_def)
  have a: "fst (fetch_arguments ?P example_request) = Inr example_call"
    by (simp add: fetch_arguments_def buildUrl_def createBody_def example_request_def
                  new_ApiRequest_def example_config_def example_Platform_def example_call_def
                  READ_ONLY_METHODS_def createParams_def new_Headers_def Headers_set_def
                  JSON_CONTENT_TYPE_def toLowerCase_def toLowerCase_char_def)
  have f: "\<forall>j\<le>2. retryable_by_default (fetch ?P j example_call)"
    by (simp add: retryable_by_default_def example_Platform_def example_Response_def
                  DEFAULT_RETRY_STATUSES_def)
  from send_bare_retry_count[OF r a f] r a show ?thesis
    by (simp add: example_Platform_def)
qed

text \<open>
  The arguments of \<^verbatim>\<open>fetch\<close> are evaluated inside the \<^verbatim>\<open>try\<close> block. When
  \<^verbatim>\<open>buildUrl\<close> throws an Error (an invalid URL), the loop treats it like a failed
  transport call: with the bare retry count N it waits N times and throws the network
  error, and the transport is never invoked.
\<close>

lemma send_loop_url_throws:
  assumes "buildUrl P req = Inl e" and "instanceofError e" and "error_name e \<noteq> ''AbortError''"
    and "shouldRetry rs = StatusArray sts"
    and "int attempt \<le> maxRetries rs"
  shows "sr_calls (send_loop P rs req attempt le calls waits) = calls \<and>
         length (sr_waits (send_loop P rs req attempt le calls waits)) =
           length waits + nat (maxRetries rs - int attempt) \<and>
         sr_outcome (send_loop P rs req attempt le calls waits) = Inl (ApiErr (fromNetworkError e))"
  using assms(5)
proof (induction "nat (maxRetries rs - int attempt)" arbitrary: attempt le waits)
  case 0
  then have eq: "int attempt = maxRetries rs" by simp
  have fa: "fetch_arguments P req = (Inl e, req)" using assms(1) by (simp add: fetch_arguments_def)
  show ?case
    by (subst (1 2 3) send_loop.simps) (simp add: eq fa assms(2,3))
next
  case (Suc n)
  then have lt: "int attempt < maxRetries rs" by simp
  have fa: "fetch_arguments P req = (Inl e, req)" using assms(1) by (simp add: fetch_arguments_def)
  have sr: "shouldRetryError e rs" using assms(3,4) by (simp add: shouldRetryError_def)
  have step: "send_loop P rs req attempt le calls waits =
              send_loop P rs req (attempt + 1) (Some e) calls
                (waits @ [wait (round_double P) (retry_delay rs) attempt (Math_random P attempt)])"
    using lt by (subst send_loop.simps) (simp add: fa assms(2,3) sr)
  have n: "n = nat (maxRetries rs - int (attempt + 1))" using Suc.hyps(2) by simp
  have le1: "int (attempt + 1) \<le> maxRetries rs" using lt by simp
  from Suc.hyps(1)[OF n le1, of "Some e"
         "waits @ [wait (round_double P) (retry_delay rs) attempt (Math_random P attempt)]"] lt
  show ?case unfolding step by (simp add: nat_diff_distrib)
qed

lemma send_url_throws_no_calls:
  assumes "retry req = Some (RetryNumber (int N))"
    and "buildUrl P req = Inl e" and "instanceofError e" and "error_name e \<noteq> ''AbortError''"
  shows "sr_calls (send P req) = [] \<and> length (sr_waits (send P req)) = N \<and>
         sr_outcome (send P req) = Inl (ApiErr (fromNetworkError e))"
proof -
  have rs: "shouldRetry (getRetrySettings req) = StatusArray DEFAULT_RETRY_STATUSES"
    "maxRetries (getRetrySettings req) = int N"
    using assms(1) by (simp_all add: getRetrySettings_def)
  from send_loop_url_throws[OF assms(2,3,4) rs(1), of 0 None "[]" "[]"] rs(2)
  show ?thesis by (simp add: send_def)
qed

text \<open>
  C1 as stated fails: for the bare retry count 2 and a relative URL with no baseURL,
  \<^verbatim>\<open>new URL\<close> throws a TypeError inside the \<^verbatim>\<open>try\<close> block at every iteration, a thrown
  error that is not an abort and that the retry predicate accepts; \<^verbatim>\<open>send\<close> waits twice
  and throws the network error without a single transport invocation, although the
  transport would answer every call with the retryable status 503.
\<close>

theorem send_invalid_url_no_transport_call:
  "retry example_request_relative = Some (RetryNumber 2) \<and>
   retryable_by_default
     (fetch (example_Platform (\<lambda>k c. Inr (example_Response 503 None []))) 0 example_call) \<and>
   sr_calls (send (example_Platform (\<lambda>k c. Inr (example_Response 503 None [])))
               example_request_relative) = [] \<and>
   length (sr_waits (send (example_Platform (\<lambda>k c. Inr (example_Response 503 None [])))
                       example_request_relative)) = 2 \<and>
   sr_outcome (send (example_Platform (\<lambda>k c. Inr (example_Response 503 None [])))
                 example_request_relative)
     = Inl (ApiErr \<lparr>code = ''NETWORK_ERROR'', status = 0,
                     message = ''Network error: Invalid URL''\<rparr>)"
proof -
  let ?P = "example_Platform (\<lambda>k c. Inr (example_Response 503 None []))"
  have r: "retry example_request_relative = Some (RetryNumber (int 2))"
    by (simp add: example_request_relative_def new_ApiRequest_def example_config_def)
  have u: "buildUrl ?P example_request_relative = Inl (Err ''TypeError'' ''Invalid URL'')"
    by (simp add: buildUrl_def example_request_relative_def new_ApiRequest_def
                  example_config_def example_Platform_def http_pattern_test_def)
  have f: "retryable_by_default (fetch ?P 0 example_call)"
    by (simp add: retryable_by_default_def example_Platform_def example_Response_def
                  DEFAULT_RETRY_STATUSES_def)
  from send_url_throws_no_calls[OF r u] r f show ?thesis
    by (simp add: fromNetworkError_def)
qed

text \<open>
  C3. When the arguments of \<^verbatim>\<open>fetch\<close> evaluate to the call c, the attempts before
  attempt k were retried, attempt k is within the retry budget and its transport call
  throws an Error named "AbortError", \<^verbatim>\<open>send\<close> throws the ApiError of
  \<^verbatim>\<open>fromTimeout\<close> (code TIMEOUT, status 408) after exactly k + 1 transport invocations
  and k waits: no further attempt is made, however many remain, and the result does not
  depend on the retry predicate's value at that error. This holds for every request,
  with or without a configured timeout.
\<close>

theorem send_abort_is_timeout:
  assumes "fst (fetch_arguments P req) = Inr c"
    and "int k \<le> maxRetries (getRetrySettings req)"
    and "\<forall>j<k. retried (getRetrySettings req) (fetch P j c)"
    and "fetch P k c = Inl e" and "instanceofError e" and "error_name e = ''AbortError''"
  shows "sr_outcome (send P req) = Inl (ApiErr fromTimeout) \<and>
         code fromTimeout = ''TIMEOUT'' \<and> status fromTimeout = 408 \<and>
         sr_calls (send P req) = replicate (k + 1) c \<and>
         length (sr_waits (send P req)) = k"
proof -
  let ?rs = "getRetrySettings req"
  obtain req' where fa: "fetch_arguments P req = (Inr c, req')"
    using assms(1) by (cases "fetch_arguments P req") auto
  have st: "fetch_arguments P req' = (Inr c, req')" by (rule fetch_arguments_stable[OF fa])
  have s0: "send P req = send_loop P ?rs req' 0 None [] []"
    by (rule send_first[OF fa]) (use assms(2) in simp)
  have "\<exists>le'. send_loop P ?rs req' 0 None [] [] =
      send_loop P ?rs req' (0 + k) le' ([] @ replicate k c)
        ([] @ map (\<lambda>i. wait (round_double P) (retry_delay ?rs) i (Math_random P i)) [0 ..< 0 + k])"
    by (rule send_loop_skip[OF st]) (use assms(2,3) in simp_all)
  then obtain le' where s1: "send_loop P ?rs req' 0 None [] [] =
      send_loop P ?rs req' k le' (replicate k c)
        (map (\<lambda>i. wait (round_double P) (retry_delay ?rs) i (Math_random P i)) [0 ..< k])"
    by auto
  have s2: "send_loop P ?rs req' k le' (replicate k c)
        (map (\<lambda>i. wait (round_double P) (retry_delay ?rs) i (Math_random P i)) [0 ..< k]) =
      \<lparr>sr_outcome = Inl (ApiErr fromTimeout),
       sr_calls = replicate k c @ [c],
       sr_waits = map (\<lambda>i. wait (round_double P) (retry_delay ?rs) i (Math_random P i)) [0 ..< k],
       sr_request = req'\<rparr>"
    by (rule send_loop_abort[OF st assms(2) _ assms(5) assms(6)]) (simp add: assms(4))
  show ?thesis
    by (simp add: s0 s1 s2 replicate_append_same fromTimeout_def HTTP_STATUS_REQUEST_TIMEOUT_def)
qed


theorem send_abort_is_timeout_witness:
  "sr_outcome (send (example_Platform (\<lambda>k c. if k = 0 then Inr (example_Response 503 None [])
                                              else Inl (Err ''AbortError'' ''This operation was aborted'')))
                 example_request)
     = Inl (ApiErr \<lparr>code = ''TIMEOUT'', status = 408, message = ''Request timed out''\<rparr>) \<and>
   length (sr_calls (send (example_Platform (\<lambda>k c. if k = 0 then Inr (example_Response 503 None [])
                                              else Inl (Err ''AbortError'' ''This operation was aborted'')))
                 example_request)) = 2"
proof -
  let ?P = "example_Platform (\<lambda>k c. if k = 0 then Inr (example_Response 503 None [])
                                     else Inl (Err ''AbortError'' ''This operation was aborted''))"
  have a: "fst (fetch_arguments ?P example_request) = Inr example_call"
    by (simp add: fetch_arguments_def buildUrl_def createBody_def example_request_def
                  new_ApiRequest_def example_config_def example_Platform_def example_call_def
                  READ_ONLY_METHODS_def createParams_def new_Headers_def Headers_set_def
                  JSON_CONTENT_TYPE_def toLowerCase_def toLowerCase_char_def)
  have m: "int 1 \<le> maxRetries (getRetrySettings example_request)"
    by (simp add: getRetrySettings_def example_request_def new_ApiRequest_def example_config_def)
  have p: "\<forall>j<1. retried (getRetrySettings example_request) (fetch ?P j example_call)"
    by (simp add: retried_def getRetrySettings_def example_request_def new_ApiRequest_def
                  example_config_def example_Platform_def example_Response_def ok_def
                  shouldRetryResponse_def DEFAULT_RETRY_STATUSES_def)
  have f: "fetch ?P 1 example_call = Inl (Err ''AbortError'' ''This operation was aborted'')"
    by (simp add: example_Platform_def)
  from send_abort_is_timeout[OF a m p f] show ?thesis
    by (simp add: fromTimeout_def HTTP_STATUS_REQUEST_TIMEOUT_def)
qed

section \<open>Building the body\<close>

lemma createBody_read_only_eq:
  "req_method req \<in> set READ_ONLY_METHODS \<Longrightarrow> createBody P req = (Inr None, req)"
  by (simp add: createBody_def)

lemma fetch_arguments_read_only:
  assumes "req_method req \<in> set READ_ONLY_METHODS" and "fetch_arguments P req = (r, req')"
  shows "req' = req \<and> (\<forall>c. r = Inr c \<longrightarrow> fc_body c = None)"
  using assms
  by (cases "buildUrl P req") (auto simp: fetch_arguments_def createBody_read_only_eq)

lemma send_loop_no_body:
  "req_method req \<in> set READ_ONLY_METHODS \<Longrightarrow> list_all (\<lambda>c. fc_body c = None) calls \<Longrightarrow>
     list_all (\<lambda>c. fc_body c = None) (sr_calls (send_loop P rs req attempt le calls waits))"
proof (induction P rs req attempt le calls waits rule: send_loop.induct)
  case (1 P rs req attempt lastError calls waits)
  obtain r req' where fa: "fetch_arguments P req = (r, req')" by (cases "fetch_arguments P req")
  from fetch_arguments_read_only[OF "1.prems"(1) fa]
  have rq: "req' = req" and nb: "\<And>c. r = Inr c \<Longrightarrow> fc_body c = None" by auto
  show ?case
  proof (cases "int attempt \<le> maxRetries rs")
    case False
    with "1.prems" show ?thesis by (subst send_loop.simps) simp
  next
    case le: True
    show ?thesis
    proof (cases r)
      case (Inl e)
      note ih = "1.IH"(1)[OF le fa[symmetric] Inl]
      from Inl fa rq le "1.prems" ih show ?thesis
        by (subst send_loop.simps) auto
    next
      case (Inr c)
      have c: "list_all (\<lambda>c. fc_body c = None) (calls @ [c])"
        using "1.prems"(2) nb[OF Inr] by simp
      note ih2 = "1.IH"(2)[OF le fa[symmetric] Inr]
      note ih3 = "1.IH"(3)[OF le fa[symmetric] Inr]
      show ?thesis
      proof (cases "fetch P (length calls) c")
        case fl: (Inl e)
        from Inr fa rq le "1.prems" c fl ih2[OF fl] show ?thesis
          by (subst send_loop.simps) auto
      next
        case fr: (Inr resp)
        from Inr fa rq le "1.prems" c fr ih3[OF fr] show ?thesis
          by (subst send_loop.simps) auto
      qed
    qed
  qed
qed

text \<open>
  C7. For a request whose method is GET or HEAD, \<^verbatim>\<open>createBody\<close> returns null whatever
  \<^verbatim>\<open>data\<close> holds (and leaves the request as it is), and every transport call that
  \<^verbatim>\<open>send\<close> makes carries no body.
\<close>

theorem read_only_no_body:
  assumes "req_method req = GET \<or> req_method req = HEAD"
  shows "createBody P req = (Inr None, req) \<and>
         list_all (\<lambda>c. fc_body c = None) (sr_calls (send P req))"
proof -
  from assms have ro: "req_method req \<in> set READ_ONLY_METHODS"
    by (auto simp: READ_ONLY_METHODS_def)
  from send_loop_no_body[OF ro, of "[]" P "getRetrySettings req" 0 None "[]"]
       createBody_read_only_eq[OF ro, of P]
  show ?thesis by (simp add: send_def)
qed

theorem read_only_no_body_witness:
  "req_method example_request_get = GET \<and> data example_request_get = Some (BObject ''{}'') \<and>
   createBody (example_Platform example_fetch_200) example_request_get
     = (Inr None, example_request_get) \<and>
   list_all (\<lambda>c. fc_body c = None)
     (sr_calls (send (example_Platform example_fetch_200) example_request_get))"
proof -
  have m: "req_method example_request_get = GET \<or> req_method example_request_get = HEAD"
    and d: "req_method example_request_get = GET"
           "data example_request_get = Some (BObject ''{}'')"
    by (simp_all add: example_request_get_def new_ApiRequest_def example_config_def)
  from read_only_no_body[OF m, of "example_Platform example_fetch_200"] d
  show ?thesis by blast
qed

text \<open>
  C2, as the code has it. For a request whose method is neither GET nor HEAD and whose
  body is an object that is not a native wire type, with JSON encoding s, the outgoing
  body is s and \<^verbatim>\<open>createBody\<close> sets the Content-Type header to application/json,
  whatever Content-Type the caller had set.
\<close>

theorem createBody_object:
  assumes "req_method req \<noteq> GET" and "req_method req \<noteq> HEAD"
    and "data req = Some (BObject obj)"
    and "JSON_stringify P obj = Inr s"
  shows "fst (createBody P req) = Inr (Some (BString s)) \<and>
         snd (createBody P req) =
           req\<lparr>headers := Headers_set ''Content-Type'' ''application/json'' (headers req)\<rparr> \<and>
         Headers_get ''Content-Type'' (headers (snd (createBody P req))) = Some ''application/json''"
  using assms
  by (simp add: createBody_cases READ_ONLY_METHODS_def JSON_CONTENT_TYPE_def Headers_get_set)

theorem createBody_object_witness:
  "fst (createBody (example_Platform (\<lambda>k c. Inr (example_Response 200 None []))) example_request)
     = Inr (Some (BString ''{}'')) \<and>
   Headers_get ''Content-Type''
     (headers (snd (createBody (example_Platform (\<lambda>k c. Inr (example_Response 200 None [])))
                      example_request)))
     = Some ''application/json''"
proof -
  let ?P = "example_Platform (\<lambda>k c. Inr (example_Response 200 None []))"
  have m: "req_method example_request \<noteq> GET" "req_method example_request \<noteq> HEAD"
    and d: "data example_request = Some (BObject ''{}'')"
    by (simp_all add: example_request_def new_ApiRequest_def example_config_def)
  have j: "JSON_stringify ?P ''{}'' = Inr ''{}''"
    by (simp add: example_Platform_def)
  from createBody_object[OF m d j] show ?thesis by blast
qed

text \<open>
  C2 as stated fails: a Content-Type that the caller has set (here
  application/vnd.api+json) is replaced by application/json.
\<close>

theorem createBody_overwrites_content_type:
  "Headers_get ''Content-Type'' (headers example_request_vnd) = Some ''application/vnd.api+json'' \<and>
   Headers_get ''Content-Type''
     (headers (snd (createBody (example_Platform (\<lambda>k c. Inr (example_Response 200 None [])))
                      example_request_vnd)))
     = Some ''application/json''"
  by (simp add: example_request_vnd_def new_ApiRequest_def example_config_def createBody_def
                READ_ONLY_METHODS_def new_Headers_def Headers_append_def Headers_get_def
                Headers_set_def JSON_CONTENT_TYPE_def toLowerCase_def toLowerCase_char_def
                example_Platform_def)

section \<open>The backoff wait\<close>

lemma overflow_threshold_pos: "0 < overflow_threshold"
  by (simp add: overflow_threshold_def)

lemma to_number_Fin: "0 \<le> x \<Longrightarrow> x < overflow_threshold \<Longrightarrow> to_number fl x = Fin (fl x)"
  using overflow_threshold_pos by (simp add: to_number_def)

lemma wait_finite:
  assumes "rounding fl" and "fl 0 = 0" and "fl 1 = 1"
    and p: "fl (2 ^ i) = 2 ^ i" and e: "fl (d * 2 ^ i) = d * 2 ^ i"
    and "0 < d" and "0 \<le> r" and "r < 1"
    and "2 ^ i < overflow_threshold" and "2 * (d * 2 ^ i) < overflow_threshold"
  shows "wait fl d i r =
           Fin (min (fl (d * 2 ^ i + fl (fl (d * 2 ^ i * fl (1 / 10)) * r))) 30000) \<and>
         d * 2 ^ i \<le> fl (d * 2 ^ i + fl (fl (d * 2 ^ i * fl (1 / 10)) * r)) \<and>
         fl (d * 2 ^ i + fl (fl (d * 2 ^ i * fl (1 / 10)) * r)) \<le>
           fl (d * 2 ^ i + fl (d * 2 ^ i * fl (1 / 10)))"
proof -
  let ?E = "d * 2 ^ i"
  let ?J = "fl (1 / 10)"
  let ?j1 = "fl (?E * ?J)"
  let ?j2 = "fl (?j1 * r)"
  have mono: "\<And>x y. x \<le> y \<Longrightarrow> fl x \<le> fl y" and idem: "\<And>x. fl (fl x) = fl x"
    using assms(1) by (auto simp: rounding_def)
  have E0: "0 < ?E" using assms(6) by simp
  have Et: "?E < overflow_threshold" using assms(10) E0 by simp
  have J0: "0 \<le> ?J" using mono[of 0 "1 / 10"] assms(2) by simp
  have J1: "?J \<le> 1" using mono[of "1 / 10" 1] assms(3) by simp
  have x1: "0 \<le> ?E * ?J" "?E * ?J \<le> ?E"
    using E0 J0 J1 by (simp_all add: mult_left_le)
  have j1: "0 \<le> ?j1" "?j1 \<le> ?E"
    using mono[OF x1(1)] mono[OF x1(2)] assms(2) e by simp_all
  have x2: "0 \<le> ?j1 * r" "?j1 * r \<le> ?j1"
    using j1(1) assms(7,8) by (simp_all add: mult_left_le)
  have j2: "0 \<le> ?j2" "?j2 \<le> ?j1"
    using mono[OF x2(1)] mono[OF x2(2)] assms(2) idem by simp_all
  have x3: "?E \<le> ?E + ?j2" "?E + ?j2 \<le> ?E + ?j1" "?E + ?j2 < overflow_threshold"
    using j2 j1 assms(10) by simp_all
  have lo: "?E \<le> fl (?E + ?j2)" using mono[OF x3(1)] e by simp
  have hi: "fl (?E + ?j2) \<le> fl (?E + ?j1)" by (rule mono[OF x3(2)])
  have pw: "Math_pow_2 fl i = Fin (2 ^ i)"
    using assms(9) p by (simp add: Math_pow_2_def to_number_Fin)
  have ed: "to_number fl ?E = Fin ?E"
    using E0 Et e by (simp add: to_number_Fin)
  have t1: "to_number fl (?E * ?J) = Fin ?j1"
    using x1 Et by (simp add: to_number_Fin)
  have t2: "to_number fl (?j1 * r) = Fin ?j2"
    using x2 j1 Et by (simp add: to_number_Fin)
  have t3: "to_number fl (?E + ?j2) = Fin (fl (?E + ?j2))"
    using x3 E0 j2 by (simp add: to_number_Fin)
  have "wait fl d i r = Fin (min (fl (?E + ?j2)) 30000)"
    by (simp add: wait_def Let_def RETRY_DEFAULTS_JITTER_FACTOR_def RETRY_DEFAULTS_MAX_DELAY_def
                  pw ed t1 t2 t3)
  with lo hi show ?thesis by simp
qed

text \<open>
  Outside that range the result need not be a number: with the attempt index 1024 the
  power of two overflows, and when \<^verbatim>\<open>Math.random()\<close> returns 0 the jitter is infinity
  times zero, so the wait is NaN, whatever the rounding.
\<close>

lemma wait_overflow_NaN: "wait fl 1 1024 0 = NaN"
proof -
  have "overflow_threshold \<le> 2 ^ 1024" by (simp add: overflow_threshold_def)
  then have p: "Math_pow_2 fl 1024 = PosInfinity" by (simp add: Math_pow_2_def to_number_def)
  have "number_times fl (number_times fl PosInfinity (Fin x)) (Fin 0) = NaN" for x
    by (cases "x = 0"; cases "0 < x") simp_all
  then show ?thesis by (simp add: wait_def Let_def p)
qed

text \<open>
  C8, as the code has it. Let the rounding of double arithmetic be monotone and leave
  doubles unchanged, and let 0 and 1 be doubles. For a base delay d > 0 and an attempt
  index i such that \<open>2^i\<close> and \<open>d * 2^i\<close> are doubles, \<open>2^i\<close> is below the overflow
  threshold and \<open>2 * d * 2^i\<close> is below it too, and for a random value r in [0, 1), the
  wait is a finite number w (not NaN): it never exceeds 30000, it is at least the minimum
  of \<open>d * 2^i\<close> and 30000 (so it is 30000 once \<open>d * 2^i\<close> reaches 30000, and at least
  \<open>d * 2^i\<close> below that), and it is at most the double that \<open>d * 2^i + d * 2^i * 0.1\<close>
  computes to, which is \<open>d * 2^i * 1.1\<close> up to rounding.
\<close>

theorem wait_bounds:
  assumes "rounding fl" and "fl 0 = 0" and "fl 1 = 1"
    and "fl (2 ^ i) = 2 ^ i" and "fl (d * 2 ^ i) = d * 2 ^ i"
    and "0 < d" and "0 \<le> r" and "r < 1"
    and "2 ^ i < overflow_threshold" and "2 * (d * 2 ^ i) < overflow_threshold"
  shows "\<exists>w. wait fl d i r = Fin w \<and> w \<le> 30000 \<and> min (d * 2 ^ i) 30000 \<le> w \<and>
             w \<le> fl (d * 2 ^ i + fl (d * 2 ^ i * fl (1 / 10))) \<and>
             (d * 2 ^ i \<le> 30000 \<longrightarrow> d * 2 ^ i \<le> w)"
  using wait_finite[OF assms] by (auto simp: min_def)

lemma rounding_example_round: "rounding example_round"
proof -
  have m: "\<And>x y :: real. x \<le> y \<Longrightarrow> example_round x \<le> example_round y"
    by (simp add: example_round_def divide_right_mono round_mono)
  have i: "\<And>x. example_round (example_round x) = example_round x"
    by (simp add: example_round_def)
  from m i show ?thesis by (simp add: rounding_def)
qed

lemma example_round_int: "example_round (of_int n) = of_int n"
proof -
  have "of_int n * (1024 :: real) = of_int (n * 1024)" by simp
  then have "round (of_int n * (1024 :: real)) = n * 1024" by (simp only: round_of_int)
  then show ?thesis by (simp add: example_round_def)
qed

theorem wait_bounds_witness:
  "rounding example_round \<and> wait example_round 1000 2 (1 / 2) = Fin (134375 / 32) \<and>
   (4000 :: real) \<le> 134375 / 32 \<and> (134375 / 32 :: real) \<le> 30000"
proof -
  have z: "example_round 0 = 0" "example_round 1 = 1" "example_round (2 ^ 2) = 2 ^ 2"
    "example_round (1000 * 2 ^ 2) = 1000 * 2 ^ 2"
    using example_round_int[of 0] example_round_int[of 1] example_round_int[of 4]
          example_round_int[of 4000] by simp_all
  have t: "(2::real) ^ 2 < overflow_threshold" "2 * (1000 * 2 ^ 2) < overflow_threshold"
    by (simp_all add: overflow_threshold_def)
  from wait_bounds[OF rounding_example_round z _ _ _ t, of "1 / 2"]
  obtain w where w: "wait example_round 1000 2 (1 / 2) = Fin w" "w \<le> 30000" "4000 \<le> w"
    by auto
  have v: "wait example_round 1000 2 (1 / 2) = Fin (134375 / 32)"
    using t by (simp add: wait_def Math_pow_2_def to_number_def example_round_def round_def
                       RETRY_DEFAULTS_JITTER_FACTOR_def RETRY_DEFAULTS_MAX_DELAY_def)
  from w v rounding_example_round show ?thesis by simp
qed

text \<open>
  C8 as stated fails: with d = 1000 and i = 5 the exponential delay is 32000, the wait is
  capped at 30000 and is below the interval [32000, 35200]. (By \<open>wait_finite\<close> this is so
  for every rounding that is monotone and has 0, 1, 32 and 32000 as doubles, as binary64
  has.)
\<close>

theorem wait_below_interval:
  "wait example_round 1000 5 0 = Fin 30000 \<and> (30000 :: real) < 1000 * 2 ^ 5"
proof -
  have t: "(32::real) < overflow_threshold" "(32000::real) < overflow_threshold"
    by (simp_all add: overflow_threshold_def)
  show ?thesis
    using t by (simp add: wait_def Math_pow_2_def to_number_def example_round_def round_def
                       RETRY_DEFAULTS_JITTER_FACTOR_def RETRY_DEFAULTS_MAX_DELAY_def)
qed

section \<open>Construction of the client\<close>

lemma startsWith_iff: "startsWith s p \<longleftrightarrow> (\<exists>r. s = p @ r)"
  by (induction s p rule: startsWith.induct) auto

lemma String_includes_iff: "String_includes s sub \<longleftrightarrow> (\<exists>a b. s = a @ sub @ b)"
proof (induction s)
  case Nil
  then show ?case by simp
next
  case (Cons c s)
  show ?case
  proof
    assume "String_includes (c # s) sub"
    then consider "startsWith (c # s) sub" | "String_includes s sub" by auto
    then show "\<exists>a b. c # s = a @ sub @ b"
    proof cases
      case 1
      then obtain r where "c # s = sub @ r" by (auto simp: startsWith_iff)
      then have "c # s = [] @ sub @ r" by simp
      then show ?thesis by blast
    next
      case 2
      with Cons obtain a b where "s = a @ sub @ b" by auto
      then have "c # s = (c # a) @ sub @ b" by simp
      then show ?thesis by blast
    qed
  next
    assume "\<exists>a b. c # s = a @ sub @ b"
    then obtain a b where ab: "c # s = a @ sub @ b" by blast
    show "String_includes (c # s) sub"
    proof (cases a)
      case Nil
      with ab have "startsWith (c # s) sub" by (auto simp: startsWith_iff)
      then show ?thesis by simp
    next
      case (Cons x a')
      with ab have "s = a' @ sub @ b" by simp
      with Cons.IH have "String_includes s sub" by blast
      then show ?thesis by simp
    qed
  qed
qed

text \<open>
  Where the constructor does what C5 says: it throws when the timeout is given and
  negative; it throws when the timeout is not negative and the baseURL is given, not empty
  and does not start with http:// or https://; it succeeds when the timeout is absent or
  greater than 0 and the baseURL is absent or starts with http:// or https://.
\<close>

theorem new_Client_validation:
  "((\<exists>t. cc_timeout c = Some t \<and> t < 0) \<longrightarrow>
      (new_Client c :: thrown + 'o Client) = Inl (Err ''Error'' ''Timeout must be greater than 0'')) \<and>
   (\<not> (\<exists>t. cc_timeout c = Some t \<and> t < 0) \<and>
    (\<exists>b. cc_baseURL c = Some b \<and> b \<noteq> [] \<and>
         \<not> ((\<exists>r. b = ''http://'' @ r) \<or> (\<exists>r. b = ''https://'' @ r))) \<longrightarrow>
      (new_Client c :: thrown + 'o Client) = Inl (Err ''Error'' ''BaseURL must be a valid HTTP/HTTPS URL'')) \<and>
   ((cc_timeout c = None \<or> (\<exists>t. cc_timeout c = Some t \<and> 0 < t)) \<and>
    (cc_baseURL c = None \<or>
     (\<exists>b. cc_baseURL c = Some b \<and> ((\<exists>r. b = ''http://'' @ r) \<or> (\<exists>r. b = ''https://'' @ r)))) \<longrightarrow>
      (\<exists>cl. (new_Client c :: thrown + 'o Client) = Inr cl))"
  by (auto simp: new_Client_def validateConfig_def Let_def http_pattern_test_def startsWith_iff
           split: option.splits)

theorem new_Client_validation_witness:
  "(new_Client (example_ClientConfig (Some (- 1)) None) :: thrown + string Client)
     = Inl (Err ''Error'' ''Timeout must be greater than 0'') \<and>
   (new_Client (example_ClientConfig (Some 5000) (Some ''ftp://api.test'')) :: thrown + string Client)
     = Inl (Err ''Error'' ''BaseURL must be a valid HTTP/HTTPS URL'') \<and>
   (\<exists>cl. (new_Client (example_ClientConfig (Some 5000) (Some ''https://api.test''))
            :: thrown + string Client) = Inr cl)"
proof -
  have a: "\<exists>t. cc_timeout (example_ClientConfig (Some (- 1)) None) = Some t \<and> t < 0"
    by (simp add: example_ClientConfig_def)
  have b: "\<not> (\<exists>t. cc_timeout (example_ClientConfig (Some 5000) (Some ''ftp://api.test'')) = Some t \<and> t < 0) \<and>
    (\<exists>b. cc_baseURL (example_ClientConfig (Some 5000) (Some ''ftp://api.test'')) = Some b \<and> b \<noteq> [] \<and>
         \<not> ((\<exists>r. b = ''http://'' @ r) \<or> (\<exists>r. b = ''https://'' @ r)))"
    by (simp add: example_ClientConfig_def)
  have c: "(cc_timeout (example_ClientConfig (Some 5000) (Some ''https://api.test'')) = None \<or>
        (\<exists>t. cc_timeout (example_ClientConfig (Some 5000) (Some ''https://api.test'')) = Some t \<and> 0 < t)) \<and>
    (cc_baseURL (example_ClientConfig (Some 5000) (Some ''https://api.test'')) = None \<or>
     (\<exists>b. cc_baseURL (example_ClientConfig (Some 5000) (Some ''https://api.test'')) = Some b \<and>
          ((\<exists>r. b = ''http://'' @ r) \<or> (\<exists>r. b = ''https://'' @ r))))"
    by (simp add: example_ClientConfig_def)
  from new_Client_validation[of "example_ClientConfig (Some (- 1)) None", where 'o = string]
       new_Client_validation[of "example_ClientConfig (Some 5000) (Some ''ftp://api.test'')", where 'o = string]
       new_Client_validation[of "example_ClientConfig (Some 5000) (Some ''https://api.test'')", where 'o = string]
       a b c
  show ?thesis by blast
qed

text \<open>
  C5. A timeout of 0 is given and is not greater than 0, and construction succeeds, with
  or without a valid baseURL. The guard \<^verbatim>\<open>this.config.timeout && ...\<close> of
  \<^verbatim>\<open>validateConfig\<close> is false at 0, so the comparison \<^verbatim>\<open><= 0\<close> is never made there,
  against the comment "Timeout must be positive" and the message "Timeout must be greater
  than 0" of the same lines.
\<close>

theorem new_Client_accepts_zero_timeout:
  "(new_Client (example_ClientConfig (Some 0) None) :: thrown + string Client) =
     Inr \<lparr>client_config = (example_ClientConfig (Some 0) None)\<lparr>cc_headers := Some []\<rparr>,
          interceptors_request = new_Interceptor, interceptors_response = new_Interceptor\<rparr> \<and>
   (new_Client (example_ClientConfig (Some 0) (Some ''https://api.test'')) :: thrown + string Client) =
     Inr \<lparr>client_config =
            (example_ClientConfig (Some 0) (Some ''https://api.test''))\<lparr>cc_headers := Some []\<rparr>,
          interceptors_request = new_Interceptor, interceptors_response = new_Interceptor\<rparr>"
  by (simp add: new_Client_def validateConfig_def example_ClientConfig_def http_pattern_test_def)

text \<open>The guard of the baseURL is a truthiness test as well: an empty baseURL is accepted.\<close>

lemma new_Client_accepts_empty_baseURL:
  "(new_Client (example_ClientConfig None (Some [])) :: thrown + string Client) =
     Inr \<lparr>client_config = (example_ClientConfig None (Some []))\<lparr>cc_headers := Some []\<rparr>,
          interceptors_request = new_Interceptor, interceptors_response = new_Interceptor\<rparr>"
  by (simp add: new_Client_def validateConfig_def example_ClientConfig_def)

section \<open>Decoding in auto mode\<close>

lemma example_json_ok:
  "json (example_Platform f) (example_ApiResponse st ct ''{}'') 0 = (Inr (JsonValue ''{}''), 1)"
  by (simp add: json_def example_ApiResponse_def example_Response_def example_Platform_def
                trim_def isWhiteSpace_def)

lemma example_json_hello:
  "json (example_Platform f) (example_ApiResponse st ct ''hello'') 0 =
     (Inl (ApiErr \<lparr>code = ''JSON_PARSE_ERROR'', status = st,
                   message = ''Failed to parse json: Unexpected token''\<rparr>), 1)"
  by (simp add: json_def example_ApiResponse_def example_Response_def example_Platform_def
                trim_def isWhiteSpace_def fromParseError_def toUpperCase_def)

lemma example_text_hello:
  "text_of (example_ApiResponse st ct ''hello'') 0 = (Inr (TextValue ''hello''), 1)"
  by (simp add: text_of_def example_ApiResponse_def example_Response_def)

lemma example_blob:
  "blob (example_ApiResponse st ct body) 0 = (Inr (BlobValue body), 1)"
  by (simp add: blob_def example_ApiResponse_def example_Response_def)

lemma example_status: "res_status (response (example_ApiResponse st ct body)) = st"
  by (simp add: example_ApiResponse_def example_Response_def)

lemma example_content_type:
  "c \<noteq> [] \<Longrightarrow> getContentType (example_ApiResponse st (Some c) body) = Some c"
  by (simp add: getContentType_def example_ApiResponse_def example_Response_def new_Headers_def
                Headers_append_def Headers_get_def toLowerCase_def toLowerCase_char_def)

lemma example_no_content_type:
  "getContentType (example_ApiResponse st None body) = None"
  by (simp add: getContentType_def example_ApiResponse_def example_Response_def Headers_get_def)

text \<open>
  C4, as the code has it. In auto mode: (1) status 204 or 304 gives the absent value and
  reads nothing of the body; otherwise (2) with no Content-Type (or an empty one) JSON is
  tried, and what it decodes to is the result (what follows when it throws is not part of
  this statement); (3) a Content-Type that contains "json" is decoded as JSON; (4) else one that contains "text/" or "xml", anywhere, as text; (5) else one that
  starts with image, video, audio or application/octet-stream as a blob; (6) anything
  else as JSON.
\<close>

theorem autoParseData_rules:
  "(getContentType r = None \<longleftrightarrow>
      Headers_get ''Content-Type'' (res_headers (response r)) = None \<or>
      Headers_get ''Content-Type'' (res_headers (response r)) = Some []) \<and>
   (res_status (response r) = 204 \<or> res_status (response r) = 304 \<longrightarrow>
      autoParseData P r k = (Inr Undefined, k)) \<and>
   (res_status (response r) \<noteq> 204 \<and> res_status (response r) \<noteq> 304 \<longrightarrow>
      (getContentType r = None \<longrightarrow>
         (\<forall>v k'. json P r k = (Inr v, k') \<longrightarrow> autoParseData P r k = (Inr v, k'))) \<and>
      (\<forall>c. getContentType r = Some c \<longrightarrow>
         (String_includes c ''json'' \<longrightarrow> autoParseData P r k = json P r k) \<and>
         (\<not> String_includes c ''json'' \<and> (String_includes c ''text/'' \<or> String_includes c ''xml'') \<longrightarrow>
            autoParseData P r k = text_of r k) \<and>
         (\<not> String_includes c ''json'' \<and> \<not> String_includes c ''text/'' \<and> \<not> String_includes c ''xml'' \<and>
          (startsWith c ''image'' \<or> startsWith c ''video'' \<or> startsWith c ''audio'' \<or>
           startsWith c ''application/octet-stream'') \<longrightarrow>
            autoParseData P r k = blob r k) \<and>
         (\<not> String_includes c ''json'' \<and> \<not> String_includes c ''text/'' \<and> \<not> String_includes c ''xml'' \<and>
          \<not> (startsWith c ''image'' \<or> startsWith c ''video'' \<or> startsWith c ''audio'' \<or>
             startsWith c ''application/octet-stream'') \<longrightarrow>
            autoParseData P r k = json P r k)))"
proof -
  have ct: "getContentType r = None \<longleftrightarrow>
      Headers_get ''Content-Type'' (res_headers (response r)) = None \<or>
      Headers_get ''Content-Type'' (res_headers (response r)) = Some []"
    by (simp add: getContentType_def split: option.splits)
  have r1: "res_status (response r) = 204 \<or> res_status (response r) = 304 \<Longrightarrow>
      autoParseData P r k = (Inr Undefined, k)"
    by (auto simp: autoParseData_def Let_def HTTP_STATUS_NO_CONTENT_def HTTP_STATUS_NOT_MODIFIED_def)
  have r2: "res_status (response r) \<noteq> 204 \<Longrightarrow> res_status (response r) \<noteq> 304 \<Longrightarrow>
      getContentType r = None \<Longrightarrow>
         autoParseData P r k =
           (case json P r k of (Inr v, k') \<Rightarrow> (Inr v, k') | (Inl e, k') \<Rightarrow> text_of r k')"
    by (simp add: autoParseData_def Let_def HTTP_STATUS_NO_CONTENT_def HTTP_STATUS_NOT_MODIFIED_def)
  have r3: "\<And>c. res_status (response r) \<noteq> 204 \<Longrightarrow> res_status (response r) \<noteq> 304 \<Longrightarrow>
      getContentType r = Some c \<Longrightarrow>
      autoParseData P r k =
        (if String_includes c ''json'' then json P r k
         else if String_includes c ''text/'' \<or> String_includes c ''xml'' then text_of r k
         else if startsWith c ''image'' \<or> startsWith c ''video'' \<or> startsWith c ''audio'' \<or>
                 startsWith c ''application/octet-stream'' then blob r k
         else json P r k)"
    by (simp add: autoParseData_def Let_def HTTP_STATUS_NO_CONTENT_def HTTP_STATUS_NOT_MODIFIED_def
                  CONTENT_TYPES_JSON_def CONTENT_TYPES_TEXT_def CONTENT_TYPES_BINARY_test_def)
  show ?thesis
    using ct r1 r2 r3 by auto
qed

theorem autoParseData_rules_witness:
  "autoParseData (example_Platform example_fetch_200)
      (example_ApiResponse 204 (Some ''application/json'') ''{}'') 0 = (Inr Undefined, 0) \<and>
   autoParseData (example_Platform example_fetch_200)
      (example_ApiResponse 200 None ''{}'') 0 = (Inr (JsonValue ''{}''), 1) \<and>
   autoParseData (example_Platform example_fetch_200)
      (example_ApiResponse 200 (Some ''application/json; charset=utf-8'') ''{}'') 0
        = (Inr (JsonValue ''{}''), 1) \<and>
   autoParseData (example_Platform example_fetch_200)
      (example_ApiResponse 200 (Some ''multipart/related; type=text/html'') ''hello'') 0
        = (Inr (TextValue ''hello''), 1) \<and>
   autoParseData (example_Platform example_fetch_200)
      (example_ApiResponse 200 (Some ''image/png'') ''bytes'') 0 = (Inr (BlobValue ''bytes''), 1) \<and>
   autoParseData (example_Platform example_fetch_200)
      (example_ApiResponse 200 (Some ''application/pdf'') ''{}'') 0 = (Inr (JsonValue ''{}''), 1)"
proof -
  let ?P = "example_Platform example_fetch_200"
  note rules = autoParseData_rules[of _ ?P 0]
  have 1: "autoParseData ?P (example_ApiResponse 204 (Some ''application/json'') ''{}'') 0
             = (Inr Undefined, 0)"
    using rules[of "example_ApiResponse 204 (Some ''application/json'') ''{}''"]
    by (simp add: example_status)
  have 2: "autoParseData ?P (example_ApiResponse 200 None ''{}'') 0 = (Inr (JsonValue ''{}''), 1)"
    using rules[of "example_ApiResponse 200 None ''{}''"]
    by (simp add: example_status example_no_content_type example_json_ok)
  have 3: "autoParseData ?P (example_ApiResponse 200 (Some ''application/json; charset=utf-8'') ''{}'') 0
             = (Inr (JsonValue ''{}''), 1)"
    using rules[of "example_ApiResponse 200 (Some ''application/json; charset=utf-8'') ''{}''"]
    by (simp add: example_status example_content_type example_json_ok)
  have 4: "autoParseData ?P (example_ApiResponse 200 (Some ''multipart/related; type=text/html'') ''hello'') 0
             = (Inr (TextValue ''hello''), 1)"
    using rules[of "example_ApiResponse 200 (Some ''multipart/related; type=text/html'') ''hello''"]
    by (simp add: example_status example_content_type example_text_hello)
  have 5: "autoParseData ?P (example_ApiResponse 200 (Some ''image/png'') ''bytes'') 0
             = (Inr (BlobValue ''bytes''), 1)"
    using rules[of "example_ApiResponse 200 (Some ''image/png'') ''bytes''"]
    by (simp add: example_status example_content_type example_blob)
  have 6: "autoParseData ?P (example_ApiResponse 200 (Some ''application/pdf'') ''{}'') 0
             = (Inr (JsonValue ''{}''), 1)"
    using rules[of "example_ApiResponse 200 (Some ''application/pdf'') ''{}''"]
    by (simp add: example_status example_content_type example_json_ok)
  from 1 2 3 4 5 6 show ?thesis by blast
qed

text \<open>
  When JSON throws under rule 2, the code calls \<^verbatim>\<open>text()\<close>, which reads the body a second
  time. On a body that can be read once, as the platform's, that read throws: the fall-back
  ends in TEXT_PARSE_ERROR and does not yield the text.
\<close>

lemma autoParseData_fallback_rereads:
  "autoParseData (example_Platform example_fetch_200) (example_ApiResponse 200 None ''hello'') 0
     = (Inl (ApiErr \<lparr>code = ''TEXT_PARSE_ERROR'', status = 200,
                      message = ''Failed to parse text: Body already read''\<rparr>), 2)"
proof -
  have t: "text_of (example_ApiResponse 200 None ''hello'') (Suc 0)
             = (Inl (ApiErr \<lparr>code = ''TEXT_PARSE_ERROR'', status = 200,
                              message = ''Failed to parse text: Body already read''\<rparr>), 2)"
    by (simp add: text_of_def example_ApiResponse_def example_Response_def fromParseError_def
                  toUpperCase_def)
  show ?thesis
    by (simp add: autoParseData_def Let_def example_status example_no_content_type
                  example_json_hello t HTTP_STATUS_NO_CONTENT_def HTTP_STATUS_NOT_MODIFIED_def)
qed

text \<open>
  C4 as stated fails at rule 4: the Content-Type multipart/related; type=text/html does
  not start with "text/", contains neither "json" nor "xml" and is not binary, so the
  stated rules decode it as JSON; the code finds "text/" inside it and decodes it as text.
\<close>

theorem autoParseData_text_anywhere:
  "autoParseData (example_Platform example_fetch_200)
      (example_ApiResponse 200 (Some ''multipart/related; type=text/html'') ''hello'') 0
     = (Inr (TextValue ''hello''), 1) \<and>
   spec_auto_rule 200 (Some ''multipart/related; type=text/html'') = DecodeJson \<and>
   decode_by (example_Platform example_fetch_200)
      (spec_auto_rule 200 (Some ''multipart/related; type=text/html''))
      (example_ApiResponse 200 (Some ''multipart/related; type=text/html'') ''hello'') 0
     = (Inl (ApiErr \<lparr>code = ''JSON_PARSE_ERROR'', status = 200,
                     message = ''Failed to parse json: Unexpected token''\<rparr>), 1)"
proof -
  have a: "autoParseData (example_Platform example_fetch_200)
      (example_ApiResponse 200 (Some ''multipart/related; type=text/html'') ''hello'') 0
     = (Inr (TextValue ''hello''), 1)"
    by (simp add: autoParseData_def Let_def example_status example_content_type example_text_hello
                  HTTP_STATUS_NO_CONTENT_def HTTP_STATUS_NOT_MODIFIED_def
                  CONTENT_TYPES_JSON_def CONTENT_TYPES_TEXT_def)
  have b: "spec_auto_rule 200 (Some ''multipart/related; type=text/html'') = DecodeJson"
    by (simp add: spec_auto_rule_def)
  show ?thesis
    by (simp add: a b example_json_hello)
qed

section \<open>Error normalization in the client\<close>

lemma normalizeError_cases:
  "normalizeError (ApiErr e) = e \<and>
   code (normalizeError (Err n m)) = ''NETWORK_ERROR'' \<and>
   status (normalizeError (Err n m)) = 0 \<and>
   message (normalizeError (Err n m)) = ''Network error: '' @ m \<and>
   code (normalizeError (NonError t s)) = ''UNKNOWN_ERROR'' \<and>
   status (normalizeError (NonError t s)) = 0"
  by (simp add: normalizeError_def fromNetworkError_def)

lemma run_handlers_error:
  "run_handlers hs x = Inl e \<Longrightarrow> \<exists>m. e = Err ''Error'' (''Interceptor handler failed: '' @ m)"
proof (induction hs arbitrary: x)
  case Nil
  then show ?case by simp
next
  case (Cons p hs)
  obtain k h where p: "p = (k, h)" by (cases p)
  show ?case
  proof (cases "h x")
    case (Inl e')
    with Cons.prems p show ?thesis by (auto simp: handler_step_def)
  next
    case (Inr y)
    with Cons.prems p have "run_handlers hs y = Inl e" by (simp add: handler_step_def)
    then show ?thesis by (rule Cons.IH)
  qed
qed

lemma execute_error_is_plain:
  "execute ic x = Inl e \<Longrightarrow> \<forall>a. e \<noteq> ApiErr a"
  by (auto simp: execute_def dest: run_handlers_error)

lemma example_send:
  "send (example_Platform example_fetch_200) (new_ApiRequest (mergeConfig example_Client example_get)) =
     \<lparr>sr_outcome = Inr (example_Response 200 (Some ''application/json'') ''{}''),
      sr_calls = [\<lparr>fc_url = ''https://api.test/users/1'', fc_method = GET, fc_headers = [],
                   fc_body = None, fc_timeout = None\<rparr>],
      sr_waits = [],
      sr_request = new_ApiRequest (mergeConfig example_Client example_get)\<rparr>"
proof -
  let ?req = "new_ApiRequest (mergeConfig example_Client example_get)"
  have rs: "maxRetries (getRetrySettings ?req) = 3"
    by (simp add: getRetrySettings_def new_ApiRequest_def mergeConfig_def example_Client_def
                  example_get_def RETRY_DEFAULTS_MAX_RETRIES_def)
  have fa: "fetch_arguments (example_Platform example_fetch_200) ?req =
              (Inr \<lparr>fc_url = ''https://api.test/users/1'', fc_method = GET, fc_headers = [],
                   fc_body = None, fc_timeout = None\<rparr>, ?req)"
    by (simp add: fetch_arguments_def buildUrl_def createBody_def new_ApiRequest_def
                  mergeConfig_def example_Client_def example_get_def example_Platform_def
                  READ_ONLY_METHODS_def createParams_def new_Headers_def spread_def)
  have f: "fetch (example_Platform example_fetch_200) 0
             \<lparr>fc_url = ''https://api.test/users/1'', fc_method = GET, fc_headers = [],
              fc_body = None, fc_timeout = None\<rparr>
           = Inr (example_Response 200 (Some ''application/json'') ''{}'')"
    by (simp add: example_Platform_def example_fetch_200_def)
  have ok: "ok (example_Response 200 (Some ''application/json'') ''{}'')"
    by (simp add: ok_def example_Response_def)
  show ?thesis
    unfolding send_def
    by (subst send_loop.simps) (simp add: rs fa f ok)
qed

text \<open>
  Whatever \<^verbatim>\<open>Client.request\<close> throws is an ApiError or is what the response interceptors
  threw.
\<close>

lemma Client_request_throws:
  assumes "fst (Client_request P cl rc) = Inl e"
  shows "(\<exists>a. e = ApiErr a) \<or> (\<exists>r. execute (interceptors_response cl) r = Inl e)"
proof (cases "execute (interceptors_request cl) (new_ApiRequest (mergeConfig cl rc))")
  case (Inl e')
  with assms show ?thesis by (auto simp: Client_request_def Let_def)
next
  case (Inr pr)
  show ?thesis
  proof (cases "sr_outcome (send P pr)")
    case (Inl e')
    with Inr assms show ?thesis by (auto simp: Client_request_def Let_def)
  next
    case r: (Inr raw)
    with Inr assms show ?thesis by (auto simp: Client_request_def Let_def)
  qed
qed

text \<open>
  C9. \<^verbatim>\<open>normalizeError\<close> does what the claim says of it, and \<^verbatim>\<open>Client.request\<close> applies
  it to what the request interceptors and \<^verbatim>\<open>send\<close> throw. What the response
  interceptors throw is not normalized: for a client whose response interceptor throws
  \<^verbatim>\<open>new Error("boom")\<close> and a transport that answers 200, \<^verbatim>\<open>request\<close> throws the plain
  Error "Interceptor handler failed: boom" after one transport call, not an ApiError.
\<close>

theorem response_interceptor_error_escapes:
  "fst (Client_request (example_Platform example_fetch_200) example_Client example_get)
     = Inl (Err ''Error'' ''Interceptor handler failed: boom'') \<and>
   length (snd (Client_request (example_Platform example_fetch_200) example_Client example_get)) = 1"
proof -
  have e: "execute (interceptors_request example_Client)
             (new_ApiRequest (mergeConfig example_Client example_get))
           = Inr (new_ApiRequest (mergeConfig example_Client example_get))"
    by (simp add: execute_def example_Client_def new_Interceptor_def)
  have x: "\<And>r. execute (interceptors_response example_Client) r
             = Inl (Err ''Error'' ''Interceptor handler failed: boom'')"
    by (simp add: execute_def example_Client_def new_Interceptor_def handler_step_def
                  throwing_handler_def)
  show ?thesis
    by (simp add: Client_request_def Let_def e example_send x)
qed

end
